theory Spec2Isabelle
  imports Complex_Main
begin

section \<open>DairyClime: the ITU index, its classes and the aggregation for the chart\<close>

text \<open>
  A shallow embedding of \<^verbatim>\<open>src/DairyClime.py\<close>: \<^verbatim>\<open>calcular_itu\<close>,
  \<^verbatim>\<open>classificar_itu\<close>, \<^verbatim>\<open>cor_por_itu\<close>, \<^verbatim>\<open>diagnostico_periodo\<close>,
  \<^verbatim>\<open>preparar_df_plot\<close>, the colours of \<^verbatim>\<open>plot_barras_itu\<close> and the analysis
  flow at module level (lines 467 to 489).

  Conventions of the model.
  \<^item> A Python float is an exact real number or NaN (\<open>pyfloat\<close>); rounding and the
    infinities are not modelled. A comparison with NaN is false, as in IEEE 754.
  \<^item> A calendar date (\<^verbatim>\<open>datetime.date\<close>, a pandas \<^verbatim>\<open>Timestamp\<close> at midnight) is
    its proleptic Gregorian ordinal, the number \<^verbatim>\<open>date.toordinal()\<close> returns, an
    \<open>int\<close>; the difference of two dates in days is the difference of the ordinals.
  \<^item> The four class names are the constructors of \<open>classe\<close>.
  \<^item> Strings are written in ASCII: an accented letter of the source stands without
    its accent.
\<close>

subsection \<open>Floats\<close>

datatype pyfloat = Num real | NaN

text \<open>\<^verbatim>\<open>x <= c\<close> for a float \<open>x\<close> and a numeric constant \<open>c\<close>.\<close>

fun le_py :: "pyfloat \<Rightarrow> real \<Rightarrow> bool" where
  "le_py (Num x) c = (x \<le> c)"
| "le_py NaN c = False"

text \<open>\<^verbatim>\<open>x * c\<close>: NaN propagates.\<close>

fun vezes :: "pyfloat \<Rightarrow> real \<Rightarrow> pyfloat" where
  "vezes (Num x) c = Num (x * c)"
| "vezes NaN c = NaN"

text \<open>
  \<^verbatim>\<open>Series.mean()\<close> of pandas on values that are not NaN: the sum divided by the
  count, and NaN for no value at all.
\<close>

definition media :: "real list \<Rightarrow> pyfloat" where
  "media xs = (if xs = [] then NaN else Num (sum_list xs / real (length xs)))"

subsection \<open>The index and its classes (lines 29 to 83)\<close>

definition calcular_itu :: "real \<Rightarrow> real \<Rightarrow> real" where
  "calcular_itu ta_c ur_pct = 0.8 * ta_c + (ur_pct * (ta_c - 14.3)) / 100.0 + 46.3"

datatype classe = Normal | Alerta | Perigo | Emergencia

definition classificar_itu :: "pyfloat \<Rightarrow> classe" where
  "classificar_itu itu =
     (if le_py itu 70 then Normal
      else if le_py itu 78 then Alerta
      else if le_py itu 82 then Perigo
      else Emergencia)"

definition cor_por_itu :: "pyfloat \<Rightarrow> string" where
  "cor_por_itu itu =
     (if le_py itu 70 then ''#2E7D32''
      else if le_py itu 78 then ''#F9A825''
      else if le_py itu 82 then ''#EF6C00''
      else ''#C62828'')"

text \<open>
  An f-string is the list of its pieces: literal text, and a float formatted with
  \<^verbatim>\<open>:.1f\<close> (the value is kept, its rendering in one decimal is not modelled).
\<close>

datatype frag = Txt string | F1 pyfloat

definition diagnostico_periodo :: "pyfloat \<Rightarrow> pyfloat \<Rightarrow> pyfloat \<Rightarrow> pyfloat \<Rightarrow> frag list" where
  "diagnostico_periodo media_itu p_alerta p_perigo p_emerg =
     (if le_py media_itu 70 then
        [Txt ''No geral, o periodo ficou em conforto termico (ITU medio '', F1 media_itu,
         Txt ''). Mesmo assim, continue garantindo agua e sombra.'']
      else if le_py media_itu 78 then
        [Txt ''O periodo teve alerta (ITU medio '', F1 media_itu, Txt ''). Tivemos '',
         F1 p_alerta, Txt ''% dos dias em alerta. Reforce sombra e agua.'']
      else if le_py media_itu 82 then
        [Txt ''O periodo teve risco alto de estresse termico (ITU medio '', F1 media_itu,
         Txt ''). Tivemos '', F1 p_perigo,
         Txt ''% dos dias em perigo. Intensifique resfriamento e evite manejo no calor.'']
      else
        [Txt ''O periodo foi critico (ITU medio '', F1 media_itu, Txt ''). Tivemos '',
         F1 p_emerg,
         Txt ''% dos dias em emergencia. Priorize resfriamento imediato e constante.''])"

text \<open>The floats an f-string interpolates, in their order of appearance.\<close>

fun interpolados :: "frag list \<Rightarrow> pyfloat list" where
  "interpolados [] = []"
| "interpolados (Txt s # fs) = interpolados fs"
| "interpolados (F1 x # fs) = x # interpolados fs"

subsection \<open>The calendar\<close>

text \<open>
  The proleptic Gregorian calendar as \<^verbatim>\<open>datetime\<close> of CPython computes it
  (\<^verbatim>\<open>_is_leap\<close>, \<^verbatim>\<open>_days_before_year\<close>, \<^verbatim>\<open>_days_in_month\<close>,
  \<^verbatim>\<open>_days_before_month\<close>, \<^verbatim>\<open>_ymd2ord\<close>, \<^verbatim>\<open>_ord2ymd\<close>); \<open>div\<close> and \<open>mod\<close>
  on \<open>int\<close> round down, as \<^verbatim>\<open>divmod\<close> does. The two tables are consulted at the months
  1 to 12 only.
\<close>

definition is_leap :: "int \<Rightarrow> bool" where
  "is_leap year = (year mod 4 = 0 \<and> (year mod 100 \<noteq> 0 \<or> year mod 400 = 0))"

definition days_before_year :: "int \<Rightarrow> int" where
  "days_before_year year =
     (let y = year - 1 in y * 365 + y div 4 - y div 100 + y div 400)"

definition DAYS_IN_MONTH :: "int \<Rightarrow> int" where
  "DAYS_IN_MONTH m =
     (if m = 1 then 31 else if m = 2 then 28 else if m = 3 then 31
      else if m = 4 then 30 else if m = 5 then 31 else if m = 6 then 30
      else if m = 7 then 31 else if m = 8 then 31 else if m = 9 then 30
      else if m = 10 then 31 else if m = 11 then 30 else if m = 12 then 31 else - 1)"

definition DAYS_BEFORE_MONTH :: "int \<Rightarrow> int" where
  "DAYS_BEFORE_MONTH m =
     (if m = 1 then 0 else if m = 2 then 31 else if m = 3 then 59
      else if m = 4 then 90 else if m = 5 then 120 else if m = 6 then 151
      else if m = 7 then 181 else if m = 8 then 212 else if m = 9 then 243
      else if m = 10 then 273 else if m = 11 then 304 else if m = 12 then 334 else - 1)"

definition days_in_month :: "int \<Rightarrow> int \<Rightarrow> int" where
  "days_in_month year month =
     (if month = 2 \<and> is_leap year then 29 else DAYS_IN_MONTH month)"

definition days_before_month :: "int \<Rightarrow> int \<Rightarrow> int" where
  "days_before_month year month =
     DAYS_BEFORE_MONTH month + (if month > 2 \<and> is_leap year then 1 else 0)"

definition ymd2ord :: "int \<Rightarrow> int \<Rightarrow> int \<Rightarrow> int" where
  "ymd2ord year month day = days_before_year year + days_before_month year month + day"

definition ord2ymd :: "int \<Rightarrow> int \<times> int \<times> int" where
  "ord2ymd ordinal =
     (let n = ordinal - 1;
          n400 = n div 146097; n = n mod 146097;
          year = n400 * 400 + 1;
          n100 = n div 36524; n = n mod 36524;
          n4 = n div 1461; n = n mod 1461;
          n1 = n div 365; n = n mod 365;
          year = year + n100 * 100 + n4 * 4 + n1
      in if n1 = 4 \<or> n100 = 4 then (year - 1, 12, 31)
         else
           let leapyear = (n1 = 3 \<and> (n4 \<noteq> 24 \<or> n100 = 3));
               month = (n + 50) div 32;
               preceding = DAYS_BEFORE_MONTH month + (if month > 2 \<and> leapyear then 1 else 0)
           in if preceding > n then
                let month = month - 1;
                    preceding = preceding -
                      (DAYS_IN_MONTH month + (if month = 2 \<and> leapyear then 1 else 0))
                in (year, month, n - preceding + 1)
              else (year, month, n - preceding + 1))"

text \<open>The accessors \<^verbatim>\<open>.dt.year\<close>, \<^verbatim>\<open>.dt.month\<close> and \<^verbatim>\<open>.dt.day\<close>.\<close>

definition ano_de :: "int \<Rightarrow> int" where
  "ano_de d = fst (ord2ymd d)"

definition mes_de :: "int \<Rightarrow> int" where
  "mes_de d = fst (snd (ord2ymd d))"

definition dia_de :: "int \<Rightarrow> int" where
  "dia_de d = snd (snd (ord2ymd d))"

text \<open>
  \<^verbatim>\<open>strftime\<close>: \<^verbatim>\<open>%d\<close> and \<^verbatim>\<open>%m\<close> are two digits, \<^verbatim>\<open>%Y\<close> is four digits for the
  years 1000 to 9999 (a pandas \<^verbatim>\<open>Timestamp\<close> lies in 1677 to 2262), \<^verbatim>\<open>%b\<close> is the
  month's abbreviation in the C locale.
\<close>

definition digito :: "int \<Rightarrow> char" where
  "digito n = ''0123456789'' ! nat n"

definition dois_digitos :: "int \<Rightarrow> string" where
  "dois_digitos n = [digito (n div 10 mod 10), digito (n mod 10)]"

definition quatro_digitos :: "int \<Rightarrow> string" where
  "quatro_digitos n = dois_digitos (n div 100) @ dois_digitos n"

definition abrev_mes :: "int \<Rightarrow> string" where
  "abrev_mes m =
     [''Jan'', ''Feb'', ''Mar'', ''Apr'', ''May'', ''Jun'',
      ''Jul'', ''Aug'', ''Sep'', ''Oct'', ''Nov'', ''Dec''] ! nat (m - 1)"

definition strftime_dm :: "int \<Rightarrow> string" where
  "strftime_dm d = dois_digitos (dia_de d) @ ''/'' @ dois_digitos (mes_de d)"

definition strftime_bY :: "int \<Rightarrow> string" where
  "strftime_bY d = abrev_mes (mes_de d) @ ''/'' @ quatro_digitos (ano_de d)"

subsection \<open>The data frames\<close>

text \<open>
  A row of \<^verbatim>\<open>df\<close> as \<^verbatim>\<open>obter_dados_nasa_power\<close> returns it (its rows with an
  unparseable date, temperature or humidity dropped, so that no value is NaN), and a
  row after the columns \<^verbatim>\<open>ITU\<close> and \<^verbatim>\<open>Classe\<close> are added (lines 472 and 473).
\<close>

record leitura =
  Data :: int
  Ta :: real
  UR :: real

record registro = leitura +
  ITU :: real
  Classe :: classe

text \<open>
  A row of \<^verbatim>\<open>df_plot\<close>: its first column is \<^verbatim>\<open>Data\<close> (a date) in the first three
  branches of \<^verbatim>\<open>preparar_df_plot\<close> and \<^verbatim>\<open>Mes\<close> (a month number) in the last; its
  column \<^verbatim>\<open>ITU\<close> is \<open>ITU_plot\<close> here, a float that may be NaN; a \<^verbatim>\<open>Label\<close> is
  \<open>None\<close> where \<^verbatim>\<open>Series.map\<close> finds no entry for the key.
\<close>

datatype chave = Dia int | Mes int

record ponto =
  Chave :: chave
  ITU_plot :: pyfloat
  Label :: "string option"

subsection \<open>Aggregation for the chart (lines 122 to 180)\<close>

text \<open>
  \<^verbatim>\<open>df.set_index("Data")[["ITU"]].resample("5D").mean().reset_index()\<close>. pandas
  (origin \<^verbatim>\<open>start_day\<close>, bins closed and labelled on the left) lays windows of five
  days from the earliest date of the index up to the window that holds the latest one,
  and gives one row per window: the window's first day and the mean of the values whose
  date lies in it, NaN for a window without values.
\<close>

definition resample_5D_mean :: "registro list \<Rightarrow> (int \<times> pyfloat) list" where
  "resample_5D_mean df =
     (case df of
        [] \<Rightarrow> []
      | r # rs \<Rightarrow>
          let primeiro = foldl min (Data r) (map Data rs);
              ultimo = foldl max (Data r) (map Data rs);
              n = nat ((ultimo - primeiro) div 5) + 1
          in map (\<lambda>k. let ini = primeiro + 5 * int k
                       in (ini, media [ITU x. x \<leftarrow> df, ini \<le> Data x \<and> Data x < ini + 5]))
                 [0..<n])"

text \<open>
  \<^verbatim>\<open>df.set_index("Data")[["ITU"]].resample("M").mean().reset_index()\<close>: one row per
  calendar month from the month of the earliest date to the month of the latest one,
  with the last day of the month and the mean of the values dated in that month, NaN
  for a month without values. A month is numbered \<open>12 * year + (month - 1)\<close>.
\<close>

definition indice_mes :: "int \<Rightarrow> int" where
  "indice_mes d = ano_de d * 12 + (mes_de d - 1)"

definition resample_M_mean :: "registro list \<Rightarrow> (int \<times> pyfloat) list" where
  "resample_M_mean df =
     (case df of
        [] \<Rightarrow> []
      | r # rs \<Rightarrow>
          let primeiro = foldl min (Data r) (map Data rs);
              ultimo = foldl max (Data r) (map Data rs);
              i0 = indice_mes primeiro;
              n = nat (indice_mes ultimo - i0) + 1
          in map (\<lambda>k. let i = i0 + int k; y = i div 12; m = i mod 12 + 1
                       in (ymd2ord y m (days_in_month y m),
                           media [ITU x. x \<leftarrow> df, indice_mes (Data x) = i]))
                 [0..<n])"

text \<open>
  \<^verbatim>\<open>df_tmp.groupby("Mes", as_index=False)["ITU"].mean()\<close> with
  \<^verbatim>\<open>Mes = Data.dt.month\<close>: one row per month number that occurs, in ascending order.
\<close>

definition groupby_Mes_mean :: "registro list \<Rightarrow> (int \<times> pyfloat) list" where
  "groupby_Mes_mean df =
     map (\<lambda>m. (m, media [ITU x. x \<leftarrow> df, mes_de (Data x) = m]))
         (sort (remdups (map (\<lambda>x. mes_de (Data x)) df)))"

definition mapa_mes :: "int \<rightharpoonup> string" where
  "mapa_mes =
     [1 \<mapsto> ''Jan'', 2 \<mapsto> ''Fev'', 3 \<mapsto> ''Mar'', 4 \<mapsto> ''Abr'', 5 \<mapsto> ''Mai'', 6 \<mapsto> ''Jun'',
      7 \<mapsto> ''Jul'', 8 \<mapsto> ''Ago'', 9 \<mapsto> ''Set'', 10 \<mapsto> ''Out'', 11 \<mapsto> ''Nov'', 12 \<mapsto> ''Dez'']"

definition preparar_df_plot :: "registro list \<Rightarrow> int \<Rightarrow> int \<Rightarrow> ponto list \<times> string" where
  "preparar_df_plot df data_ini data_fim =
     (let dias = (data_fim - data_ini) + 1
      in if dias \<le> 15 then
           (map (\<lambda>r. \<lparr>Chave = Dia (Data r), ITU_plot = Num (ITU r),
                      Label = Some (strftime_dm (Data r))\<rparr>) df,
            ''ITU Diario'')
         else if dias \<le> 90 then
           (map (\<lambda>(d, v). \<lparr>Chave = Dia d, ITU_plot = v, Label = Some (strftime_dm d)\<rparr>)
                (resample_5D_mean df),
            ''ITU (Media a cada 5 dias)'')
         else if dias < 365 then
           (map (\<lambda>(d, v). \<lparr>Chave = Dia d, ITU_plot = v, Label = Some (strftime_bY d)\<rparr>)
                (resample_M_mean df),
            ''ITU Medio Mensal'')
         else
           (map (\<lambda>(m, v). \<lparr>Chave = Mes m, ITU_plot = v, Label = mapa_mes m\<rparr>)
                (groupby_Mes_mean df),
            ''ITU Medio Mensal (media de todos os anos)''))"

text \<open>The colours of the bars in \<^verbatim>\<open>plot_barras_itu\<close> (line 179).\<close>

definition cores_barras :: "ponto list \<Rightarrow> string list" where
  "cores_barras df_plot = map (\<lambda>p. cor_por_itu (ITU_plot p)) df_plot"

subsection \<open>The analysis flow (lines 467 to 489)\<close>

text \<open>
  The flow checks \<^verbatim>\<open>df.empty\<close> first (lines 467 to 469): on an empty \<^verbatim>\<open>df\<close> it
  shows a warning and ends the script with \<^verbatim>\<open>st.stop()\<close>, as the other exits of the
  script do; no exception class is involved. Otherwise it computes the values below,
  which the card, the metrics and the report then show.
\<close>

datatype parada = Sem_dados

record resultado =
  media_itu :: pyfloat
  classe_media :: classe
  p_alerta :: pyfloat
  p_perigo :: pyfloat
  p_emerg :: pyfloat
  diag :: "frag list"
  df_plot :: "ponto list"
  titulo :: string
  cores :: "string list"

text \<open>\<^verbatim>\<open>(df["Classe"] == c).mean() * 100\<close>: the mean of a column of booleans.\<close>

definition percentual :: "classe \<Rightarrow> registro list \<Rightarrow> pyfloat" where
  "percentual c df = vezes (media (map (\<lambda>r. if Classe r = c then 1 else 0) df)) 100"

definition com_itu :: "leitura \<Rightarrow> registro" where
  "com_itu l =
     (let itu = calcular_itu (Ta l) (UR l)
      in \<lparr>Data = Data l, Ta = Ta l, UR = UR l, ITU = itu, Classe = classificar_itu (Num itu)\<rparr>)"

text \<open>
  The summary of the period (lines 475 to 483): the mean index, its class, the three
  percentages and the diagnosis, in this order. Nothing here looks at the length of
  \<^verbatim>\<open>df\<close>: on an empty frame the mean and the percentages are NaN.
\<close>

definition resumir ::
  "registro list \<Rightarrow> pyfloat \<times> classe \<times> pyfloat \<times> pyfloat \<times> pyfloat \<times> frag list" where
  "resumir df =
     (let m = media (map ITU df);
          pa = percentual Alerta df;
          pp = percentual Perigo df;
          pe = percentual Emergencia df
      in (m, classificar_itu m, pa, pp, pe, diagnostico_periodo m pa pp pe))"

definition analisar :: "leitura list \<Rightarrow> int \<Rightarrow> int \<Rightarrow> parada + resultado" where
  "analisar df0 data_ini data_fim =
     (if df0 = [] then Inl Sem_dados
      else
        let df = map com_itu df0;
            (m, c, pa, pp, pe, dg) = resumir df;
            (pl, t) = preparar_df_plot df data_ini data_fim
        in Inr \<lparr>media_itu = m, classe_media = c,
                p_alerta = pa, p_perigo = pp, p_emerg = pe,
                diag = dg,
                df_plot = pl, titulo = t, cores = cores_barras pl\<rparr>)"

section \<open>Properties\<close>

subsection \<open>The index and the bands\<close>

text \<open>
  C1. For every index value \<open>v\<close> (a number), \<^verbatim>\<open>classificar_itu\<close> returns Normal iff
  \<open>v \<le> 70\<close>, Alerta iff \<open>70 < v \<le> 78\<close>, Perigo iff \<open>78 < v \<le> 82\<close> and Emergencia
  iff \<open>v > 82\<close>; at the boundaries, 70.0 is Normal, 70.0001 is Alerta, 78.0 is Alerta,
  82.0 is Perigo and 82.0001 is Emergencia.
\<close>

theorem classificar_itu_bands:
  "(classificar_itu (Num v) = Normal \<longleftrightarrow> v \<le> 70) \<and>
   (classificar_itu (Num v) = Alerta \<longleftrightarrow> 70 < v \<and> v \<le> 78) \<and>
   (classificar_itu (Num v) = Perigo \<longleftrightarrow> 78 < v \<and> v \<le> 82) \<and>
   (classificar_itu (Num v) = Emergencia \<longleftrightarrow> 82 < v) \<and>
   classificar_itu (Num 70.0) = Normal \<and>
   classificar_itu (Num 70.0001) = Alerta \<and>
   classificar_itu (Num 78.0) = Alerta \<and>
   classificar_itu (Num 82.0) = Perigo \<and>
   classificar_itu (Num 82.0001) = Emergencia"
  by (simp add: classificar_itu_def)

text \<open>
  C5. \<^verbatim>\<open>calcular_itu(ta, ur)\<close> is \<open>0.8*ta + (ur*(ta - 14.3))/100 + 46.3\<close>; at 30.0 degrees
  and 60.0 percent it is 79.72, which is classified Perigo.
\<close>

theorem calcular_itu_formula:
  "calcular_itu ta ur = 0.8 * ta + (ur * (ta - 14.3)) / 100 + 46.3 \<and>
   calcular_itu 30.0 60.0 = 79.72 \<and>
   classificar_itu (Num (calcular_itu 30.0 60.0)) = Perigo"
  by (simp add: calcular_itu_def classificar_itu_def)

subsection \<open>The empty series\<close>

text \<open>
  C7. For every period, \<^verbatim>\<open>preparar_df_plot\<close> on an empty series returns no point,
  together with the title of the branch the number of days selects, and does not raise.
\<close>

theorem preparar_df_plot_serie_vazia:
  "preparar_df_plot [] data_ini data_fim =
     ([], if data_fim - data_ini + 1 \<le> 15 then ''ITU Diario''
          else if data_fim - data_ini + 1 \<le> 90 then ''ITU (Media a cada 5 dias)''
          else if data_fim - data_ini + 1 < 365 then ''ITU Medio Mensal''
          else ''ITU Medio Mensal (media de todos os anos)'')"
  by (simp add: preparar_df_plot_def Let_def resample_5D_mean_def resample_M_mean_def
      groupby_Mes_mean_def)

subsection \<open>The summary of the period\<close>

lemma diagnostico_periodo_classe:
  "diagnostico_periodo m pa pp pe =
     (case classificar_itu m of
        Normal \<Rightarrow>
          [Txt ''No geral, o periodo ficou em conforto termico (ITU medio '', F1 m,
           Txt ''). Mesmo assim, continue garantindo agua e sombra.'']
      | Alerta \<Rightarrow>
          [Txt ''O periodo teve alerta (ITU medio '', F1 m, Txt ''). Tivemos '',
           F1 pa, Txt ''% dos dias em alerta. Reforce sombra e agua.'']
      | Perigo \<Rightarrow>
          [Txt ''O periodo teve risco alto de estresse termico (ITU medio '', F1 m,
           Txt ''). Tivemos '', F1 pp,
           Txt ''% dos dias em perigo. Intensifique resfriamento e evite manejo no calor.'']
      | Emergencia \<Rightarrow>
          [Txt ''O periodo foi critico (ITU medio '', F1 m, Txt ''). Tivemos '',
           F1 pe,
           Txt ''% dos dias em emergencia. Priorize resfriamento imediato e constante.''])"
  by (simp add: diagnostico_periodo_def classificar_itu_def)

lemma interpolados_diagnostico:
  "interpolados (diagnostico_periodo m pa pp pe) =
     (case classificar_itu m of
        Normal \<Rightarrow> [m] | Alerta \<Rightarrow> [m, pa] | Perigo \<Rightarrow> [m, pp] | Emergencia \<Rightarrow> [m, pe])"
  by (simp add: diagnostico_periodo_def classificar_itu_def)

lemma percentual_eq:
  assumes "df \<noteq> []"
  shows "percentual c df =
     Num (real (length (filter (\<lambda>r. Classe r = c) df)) / real (length df) * 100)"
proof -
  have "sum_list (map (\<lambda>r. if Classe r = c then 1 else 0) df) =
        real (length (filter (\<lambda>r. Classe r = c) df))"
    by (induction df) simp_all
  with assms show ?thesis
    by (simp add: percentual_def media_def)
qed

lemma com_itu_sel:
  "ITU (com_itu l) = calcular_itu (Ta l) (UR l)"
  "Classe (com_itu l) = classificar_itu (Num (calcular_itu (Ta l) (UR l)))"
  "Data (com_itu l) = Data l"
  by (simp_all add: com_itu_def Let_def)

text \<open>
  C6 as the spec states it fails: the summary computations raise nothing on an empty
  series. They return a value: the mean is NaN, its class is Emergencia (every
  comparison with NaN is false), the three percentages are NaN and the diagnosis is the
  text of Emergencia.
\<close>

theorem resumir_serie_vazia_contraexemplo:
  "resumir [] =
     (NaN, Emergencia, NaN, NaN, NaN,
      [Txt ''O periodo foi critico (ITU medio '', F1 NaN, Txt ''). Tivemos '', F1 NaN,
       Txt ''% dos dias em emergencia. Priorize resfriamento imediato e constante.''])"
  by (simp add: resumir_def percentual_def media_def classificar_itu_def
      diagnostico_periodo_def)

text \<open>
  C6, as the code has it. It is the flow that guards the summary: on an empty series
  it stops before the summary is computed and yields no value, and on any other series
  it yields the summary of the series with its columns \<^verbatim>\<open>ITU\<close> and \<^verbatim>\<open>Classe\<close>. So
  the flow yields a value exactly when the series is not empty. The summary
  computations themselves raise nothing on an empty series: they return NaN for the
  mean and the percentages, the class Emergencia and its text.
\<close>

theorem analisar_guarda_a_serie_vazia:
  "analisar [] data_ini data_fim = Inl Sem_dados \<and>
   (df0 \<noteq> [] \<longrightarrow>
      (\<exists>res. analisar df0 data_ini data_fim = Inr res \<and>
         (media_itu res, classe_media res, p_alerta res, p_perigo res, p_emerg res,
          diag res) = resumir (map com_itu df0))) \<and>
   ((\<exists>res. analisar df0 data_ini data_fim = Inr res) \<longleftrightarrow> df0 \<noteq> []) \<and>
   resumir [] =
     (NaN, Emergencia, NaN, NaN, NaN,
      [Txt ''O periodo foi critico (ITU medio '', F1 NaN, Txt ''). Tivemos '', F1 NaN,
       Txt ''% dos dias em emergencia. Priorize resfriamento imediato e constante.''])"
proof -
  have e: "analisar [] data_ini data_fim = Inl Sem_dados"
    by (simp add: analisar_def)
  have v: "\<exists>res. analisar df0 data_ini data_fim = Inr res \<and>
         (media_itu res, classe_media res, p_alerta res, p_perigo res, p_emerg res,
          diag res) = resumir (map com_itu df0)" if "df0 \<noteq> []"
    using that by (simp add: analisar_def Let_def split_beta)
  have i: "(\<exists>res. analisar df0 data_ini data_fim = Inr res) \<longleftrightarrow> df0 \<noteq> []"
  proof (cases "df0 = []")
    case True
    then show ?thesis by (simp add: analisar_def)
  next
    case False
    from v[OF False] show ?thesis using False by blast
  qed
  have n: "resumir [] =
     (NaN, Emergencia, NaN, NaN, NaN,
      [Txt ''O periodo foi critico (ITU medio '', F1 NaN, Txt ''). Tivemos '', F1 NaN,
       Txt ''% dos dias em emergencia. Priorize resfriamento imediato e constante.''])"
    by (simp add: resumir_def percentual_def media_def classificar_itu_def
        diagnostico_periodo_def)
  from e v i n show ?thesis by blast
qed

theorem analisar_guarda_a_serie_vazia_witness:
  "analisar [] 737427 737427 = Inl Sem_dados \<and>
   (\<exists>res. analisar [\<lparr>Data = 737427, Ta = 30, UR = 60\<rparr>] 737427 737427 = Inr res \<and>
      media_itu res = Num 79.72 \<and> classe_media res = Perigo \<and>
      p_alerta res = Num 0 \<and> p_perigo res = Num 100 \<and> p_emerg res = Num 0)"
proof -
  let ?df0 = "[\<lparr>Data = 737427, Ta = 30, UR = 60\<rparr>] :: leitura list"
  have ne: "?df0 \<noteq> []" by simp
  note t = analisar_guarda_a_serie_vazia[of 737427 737427 ?df0]
  have s: "resumir (map com_itu ?df0) =
      (Num 79.72, Perigo, Num 0, Num 100, Num 0,
       diagnostico_periodo (Num 79.72) (Num 0) (Num 100) (Num 0))"
    by (simp add: resumir_def percentual_def media_def com_itu_sel calcular_itu_def
        classificar_itu_def Let_def)
  from t ne obtain res where r: "analisar ?df0 737427 737427 = Inr res"
    "(media_itu res, classe_media res, p_alerta res, p_perigo res, p_emerg res,
      diag res) = resumir (map com_itu ?df0)"
    by blast
  from r(2) have f: "media_itu res = Num 79.72 \<and> classe_media res = Perigo \<and>
      p_alerta res = Num 0 \<and> p_perigo res = Num 100 \<and> p_emerg res = Num 0"
    unfolding s by simp
  from t r(1) f show ?thesis by blast
qed

lemma analisar_Inr:
  "df0 \<noteq> [] \<Longrightarrow>
   analisar df0 ini fim =
     Inr \<lparr>media_itu = media (map ITU (map com_itu df0)),
          classe_media = classificar_itu (media (map ITU (map com_itu df0))),
          p_alerta = percentual Alerta (map com_itu df0),
          p_perigo = percentual Perigo (map com_itu df0),
          p_emerg = percentual Emergencia (map com_itu df0),
          diag = diagnostico_periodo (media (map ITU (map com_itu df0)))
                   (percentual Alerta (map com_itu df0))
                   (percentual Perigo (map com_itu df0))
                   (percentual Emergencia (map com_itu df0)),
          df_plot = fst (preparar_df_plot (map com_itu df0) ini fim),
          titulo = snd (preparar_df_plot (map com_itu df0) ini fim),
          cores = cores_barras (fst (preparar_df_plot (map com_itu df0) ini fim))\<rparr>"
  by (simp add: analisar_def resumir_def Let_def split_beta)

text \<open>
  C8. For a series that is not empty, the flow computes the mean index and the
  percentage of the days in each of the classes Alerta, Perigo and Emergencia, and the
  diagnosis is \<^verbatim>\<open>diagnostico_periodo\<close> of these. The text is chosen by the class of the
  mean index, the same four bands as \<^verbatim>\<open>classificar_itu\<close>, and it interpolates the
  mean index and the percentage of that class only: the text of Alerta its own
  percentage, the text of Perigo its own, the text of Emergencia its own, and the text
  of Normal the mean index alone.
\<close>

theorem diagnostico_pela_classe_da_media:
  assumes "df0 \<noteq> []"
  shows
  "(\<exists>res. analisar df0 data_ini data_fim = Inr res \<and>
      media_itu res =
        Num (sum_list (map (\<lambda>l. calcular_itu (Ta l) (UR l)) df0) / real (length df0)) \<and>
      p_alerta res =
        Num (real (length (filter
               (\<lambda>l. classificar_itu (Num (calcular_itu (Ta l) (UR l))) = Alerta) df0))
             / real (length df0) * 100) \<and>
      p_perigo res =
        Num (real (length (filter
               (\<lambda>l. classificar_itu (Num (calcular_itu (Ta l) (UR l))) = Perigo) df0))
             / real (length df0) * 100) \<and>
      p_emerg res =
        Num (real (length (filter
               (\<lambda>l. classificar_itu (Num (calcular_itu (Ta l) (UR l))) = Emergencia) df0))
             / real (length df0) * 100) \<and>
      classe_media res = classificar_itu (media_itu res) \<and>
      diag res = diagnostico_periodo (media_itu res) (p_alerta res) (p_perigo res) (p_emerg res)) \<and>
   diagnostico_periodo m pa pp pe =
     (case classificar_itu m of
        Normal \<Rightarrow>
          [Txt ''No geral, o periodo ficou em conforto termico (ITU medio '', F1 m,
           Txt ''). Mesmo assim, continue garantindo agua e sombra.'']
      | Alerta \<Rightarrow>
          [Txt ''O periodo teve alerta (ITU medio '', F1 m, Txt ''). Tivemos '',
           F1 pa, Txt ''% dos dias em alerta. Reforce sombra e agua.'']
      | Perigo \<Rightarrow>
          [Txt ''O periodo teve risco alto de estresse termico (ITU medio '', F1 m,
           Txt ''). Tivemos '', F1 pp,
           Txt ''% dos dias em perigo. Intensifique resfriamento e evite manejo no calor.'']
      | Emergencia \<Rightarrow>
          [Txt ''O periodo foi critico (ITU medio '', F1 m, Txt ''). Tivemos '',
           F1 pe,
           Txt ''% dos dias em emergencia. Priorize resfriamento imediato e constante.'']) \<and>
   interpolados (diagnostico_periodo m pa pp pe) =
     (case classificar_itu m of
        Normal \<Rightarrow> [m] | Alerta \<Rightarrow> [m, pa] | Perigo \<Rightarrow> [m, pp] | Emergencia \<Rightarrow> [m, pe])"
proof -
  let ?df = "map com_itu df0"
  let ?itu = "\<lambda>l. calcular_itu (Ta l) (UR l)"
  have ne: "?df \<noteq> []" using assms by simp
  have flt: "length (filter (\<lambda>r. Classe r = c) ?df) =
      length (filter (\<lambda>l. classificar_itu (Num (?itu l)) = c) df0)" for c
    by (simp add: filter_map o_def com_itu_sel)
  have pc: "percentual c ?df =
      Num (real (length (filter (\<lambda>l. classificar_itu (Num (?itu l)) = c) df0))
           / real (length df0) * 100)" for c
    using percentual_eq[OF ne, of c] by (simp only: flt length_map)
  have md: "media (map ITU ?df) = Num (sum_list (map ?itu df0) / real (length df0))"
    using assms by (simp add: media_def o_def com_itu_sel)
  have "\<exists>res. analisar df0 data_ini data_fim = Inr res \<and>
      media_itu res = Num (sum_list (map ?itu df0) / real (length df0)) \<and>
      p_alerta res =
        Num (real (length (filter (\<lambda>l. classificar_itu (Num (?itu l)) = Alerta) df0))
             / real (length df0) * 100) \<and>
      p_perigo res =
        Num (real (length (filter (\<lambda>l. classificar_itu (Num (?itu l)) = Perigo) df0))
             / real (length df0) * 100) \<and>
      p_emerg res =
        Num (real (length (filter (\<lambda>l. classificar_itu (Num (?itu l)) = Emergencia) df0))
             / real (length df0) * 100) \<and>
      classe_media res = classificar_itu (media_itu res) \<and>
      diag res = diagnostico_periodo (media_itu res) (p_alerta res) (p_perigo res) (p_emerg res)"
    by (simp only: analisar_Inr[OF assms] pc md sum.inject simp_thms ex_simps
          resultado.simps)
  then show ?thesis
    using diagnostico_periodo_classe[of m pa pp pe] interpolados_diagnostico[of m pa pp pe]
    by blast
qed

theorem diagnostico_pela_classe_da_media_witness:
  "\<exists>res. analisar [\<lparr>Data = 737427, Ta = 30, UR = 60\<rparr>] 737427 737427 = Inr res \<and>
      media_itu res = Num 79.72 \<and> classe_media res = Perigo \<and>
      p_perigo res = Num 100 \<and>
      interpolados (diag res) = [Num 79.72, Num 100]"
proof -
  let ?df0 = "[\<lparr>Data = 737427, Ta = 30, UR = 60\<rparr>] :: leitura list"
  have ne: "?df0 \<noteq> []" by simp
  from diagnostico_pela_classe_da_media[OF ne, of 737427 737427 NaN NaN NaN NaN]
  obtain res where r: "analisar ?df0 737427 737427 = Inr res"
    "media_itu res =
       Num (sum_list (map (\<lambda>l. calcular_itu (Ta l) (UR l)) ?df0) / real (length ?df0))"
    "p_perigo res =
       Num (real (length (filter
              (\<lambda>l. classificar_itu (Num (calcular_itu (Ta l) (UR l))) = Perigo) ?df0))
            / real (length ?df0) * 100)"
    "classe_media res = classificar_itu (media_itu res)"
    "diag res = diagnostico_periodo (media_itu res) (p_alerta res) (p_perigo res) (p_emerg res)"
    by blast
  have m: "media_itu res = Num 79.72" using r(2) by (simp add: calcular_itu_def)
  have p: "p_perigo res = Num 100"
    using r(3) by (simp add: calcular_itu_def classificar_itu_def)
  have c: "classe_media res = Perigo" using r(4) m by (simp add: classificar_itu_def)
  have i: "interpolados (diag res) = [Num 79.72, Num 100]"
    using r(5) m p by (simp add: diagnostico_periodo_def)
  show ?thesis using r(1) m c p i by blast
qed

subsection \<open>Colours\<close>

text \<open>
  C9. The colour of an index value depends on its class alone: \<^verbatim>\<open>cor_por_itu\<close> is one
  fixed colour per class of \<^verbatim>\<open>classificar_itu\<close>, so two values of the same class have
  the same colour, and the chart colours each bar with this mapping applied to the
  value of its point, in \<^verbatim>\<open>plot_barras_itu\<close> and so in the flow that draws the chart.
\<close>

theorem cor_depende_so_da_classe:
  "cor_por_itu x =
     (case classificar_itu x of
        Normal \<Rightarrow> ''#2E7D32'' | Alerta \<Rightarrow> ''#F9A825''
      | Perigo \<Rightarrow> ''#EF6C00'' | Emergencia \<Rightarrow> ''#C62828'') \<and>
   (classificar_itu x = classificar_itu y \<longrightarrow> cor_por_itu x = cor_por_itu y) \<and>
   cores_barras pts =
     map (\<lambda>p. case classificar_itu (ITU_plot p) of
                 Normal \<Rightarrow> ''#2E7D32'' | Alerta \<Rightarrow> ''#F9A825''
               | Perigo \<Rightarrow> ''#EF6C00'' | Emergencia \<Rightarrow> ''#C62828'') pts \<and>
   (analisar df0 data_ini data_fim = Inr res \<longrightarrow>
      cores res = map (\<lambda>p. cor_por_itu (ITU_plot p)) (df_plot res))"
proof -
  have c: "cor_por_itu v =
     (case classificar_itu v of
        Normal \<Rightarrow> ''#2E7D32'' | Alerta \<Rightarrow> ''#F9A825''
      | Perigo \<Rightarrow> ''#EF6C00'' | Emergencia \<Rightarrow> ''#C62828'')" for v
    by (simp add: cor_por_itu_def classificar_itu_def)
  have s: "classificar_itu x = classificar_itu y \<longrightarrow> cor_por_itu x = cor_por_itu y"
    by (simp add: c)
  have b: "cores_barras pts =
     map (\<lambda>p. case classificar_itu (ITU_plot p) of
                 Normal \<Rightarrow> ''#2E7D32'' | Alerta \<Rightarrow> ''#F9A825''
               | Perigo \<Rightarrow> ''#EF6C00'' | Emergencia \<Rightarrow> ''#C62828'') pts"
    by (simp add: cores_barras_def c)
  have a: "analisar df0 data_ini data_fim = Inr res \<longrightarrow>
      cores res = map (\<lambda>p. cor_por_itu (ITU_plot p)) (df_plot res)"
  proof (cases "df0 = []")
    case True
    then show ?thesis by (simp add: analisar_def)
  next
    case False
    show ?thesis
      by (auto simp add: analisar_Inr[OF False] cores_barras_def)
  qed
  from c[of x] s b a show ?thesis by blast
qed

theorem cor_depende_so_da_classe_witness:
  "classificar_itu (Num 71) = classificar_itu (Num 77.5) \<and>
   cor_por_itu (Num 71) = ''#F9A825'' \<and> cor_por_itu (Num 77.5) = ''#F9A825'' \<and>
   cores_barras [\<lparr>Chave = Dia 737427, ITU_plot = Num 79.72, Label = Some ''03/01''\<rparr>,
                 \<lparr>Chave = Dia 737432, ITU_plot = NaN, Label = Some ''08/01''\<rparr>]
     = [''#EF6C00'', ''#C62828''] \<and>
   (\<exists>res. analisar [\<lparr>Data = 737427, Ta = 30, UR = 60\<rparr>] 737427 737427 = Inr res \<and>
          cores res = [''#EF6C00''])"
proof -
  let ?df0 = "[\<lparr>Data = 737427, Ta = 30, UR = 60\<rparr>] :: leitura list"
  let ?pts = "[\<lparr>Chave = Dia 737427, ITU_plot = Num 79.72, Label = Some ''03/01''\<rparr>,
               \<lparr>Chave = Dia 737432, ITU_plot = NaN, Label = Some ''08/01''\<rparr>]"
  have ne: "?df0 \<noteq> []" by simp
  obtain res where r: "analisar ?df0 737427 737427 = Inr res"
    using analisar_Inr[OF ne] by blast
  have pl: "df_plot res = fst (preparar_df_plot (map com_itu ?df0) 737427 737427)"
    using r by (auto simp add: analisar_Inr[OF ne])
  have pv: "map ITU_plot (df_plot res) = [Num 79.72]"
    unfolding pl by (simp add: preparar_df_plot_def com_itu_sel calcular_itu_def)
  note t = cor_depende_so_da_classe[of "Num 71" "Num 77.5" ?pts ?df0 737427 737427 res]
  have k: "classificar_itu (Num 71) = classificar_itu (Num 77.5)"
    by (simp add: classificar_itu_def)
  have c1: "cor_por_itu (Num 71) = ''#F9A825''"
    using t by (simp add: classificar_itu_def)
  have c2: "cor_por_itu (Num 77.5) = ''#F9A825''"
    using t k c1 by simp
  have c3: "cores_barras ?pts = [''#EF6C00'', ''#C62828'']"
    using t by (simp add: classificar_itu_def)
  have "cores res = map (\<lambda>p. cor_por_itu (ITU_plot p)) (df_plot res)"
    using t r by blast
  also have "\<dots> = map cor_por_itu (map ITU_plot (df_plot res))" by (simp add: o_def)
  also have "\<dots> = [''#EF6C00'']" unfolding pv by (simp add: cor_por_itu_def)
  finally have c4: "cores res = [''#EF6C00'']" .
  show ?thesis using k c1 c2 c3 c4 r by blast
qed

subsection \<open>Dates used in the examples\<close>

lemmas calendario_defs =
  ano_de_def mes_de_def dia_de_def ord2ymd_def ymd2ord_def days_before_year_def
  days_before_month_def days_in_month_def is_leap_def DAYS_IN_MONTH_def
  DAYS_BEFORE_MONTH_def indice_mes_def Let_def

lemmas rotulo_defs =
  strftime_dm_def strftime_bY_def dois_digitos_def quatro_digitos_def digito_def
  abrev_mes_def mapa_mes_def

text \<open>Some dates of January 2020, computed once.\<close>

lemma jan2020:
  "mes_de 737427 = 1" "mes_de 737431 = 1"
  "indice_mes 737427 = 24240" "indice_mes 737431 = 24240"
  "ymd2ord 2020 1 (days_in_month 2020 1) = 737455"
  by (simp_all add: calendario_defs)

subsection \<open>The windows of five days and the months\<close>

lemma foldl_min_Min: "foldl min (a::int) xs = Min (set (a # xs))"
proof (induction xs arbitrary: a)
  case Nil
  show ?case by simp
next
  case (Cons x xs)
  have "foldl min a (x # xs) = Min (set (min a x # xs))" using Cons by simp
  also have "\<dots> = Min (set (a # x # xs))"
    by (cases "xs = []") (simp_all add: min.assoc)
  finally show ?case .
qed

lemma foldl_max_Max: "foldl max (a::int) xs = Max (set (a # xs))"
proof (induction xs arbitrary: a)
  case Nil
  show ?case by simp
next
  case (Cons x xs)
  have "foldl max a (x # xs) = Max (set (max a x # xs))" using Cons by simp
  also have "\<dots> = Max (set (a # x # xs))"
    by (cases "xs = []") (simp_all add: max.assoc)
  finally show ?case .
qed

lemma resample_5D_mean_eq:
  assumes "df \<noteq> []"
  shows "resample_5D_mean df =
     map (\<lambda>k. (Min (Data ` set df) + 5 * int k,
               media [ITU x. x \<leftarrow> df, Min (Data ` set df) + 5 * int k \<le> Data x \<and>
                                      Data x < Min (Data ` set df) + 5 * int k + 5]))
         [0..<nat ((Max (Data ` set df) - Min (Data ` set df)) div 5) + 1]"
proof -
  obtain r rs where df: "df = r # rs" using assms by (cases df) auto
  have s: "set (Data r # map Data rs) = Data ` set df" by (simp add: df)
  show ?thesis
    unfolding resample_5D_mean_def foldl_min_Min foldl_max_Max s
    by (simp add: df Let_def)
qed

lemma resample_M_mean_eq:
  assumes "df \<noteq> []"
  shows "resample_M_mean df =
     map (\<lambda>k. (ymd2ord ((indice_mes (Min (Data ` set df)) + int k) div 12)
                  ((indice_mes (Min (Data ` set df)) + int k) mod 12 + 1)
                  (days_in_month ((indice_mes (Min (Data ` set df)) + int k) div 12)
                     ((indice_mes (Min (Data ` set df)) + int k) mod 12 + 1)),
               media [ITU x. x \<leftarrow> df,
                      indice_mes (Data x) = indice_mes (Min (Data ` set df)) + int k]))
         [0..<nat (indice_mes (Max (Data ` set df)) - indice_mes (Min (Data ` set df))) + 1]"
proof -
  obtain r rs where df: "df = r # rs" using assms by (cases df) auto
  have s: "set (Data r # map Data rs) = Data ` set df" by (simp add: df)
  show ?thesis
    unfolding resample_M_mean_def foldl_min_Min foldl_max_Max s
    by (simp add: df Let_def)
qed

lemma media_vazia: "(\<forall>x\<in>set df. \<not> P x) \<Longrightarrow> media [ITU x. x \<leftarrow> df, P x] = NaN"
proof -
  assume "\<forall>x\<in>set df. \<not> P x"
  then have "[ITU x. x \<leftarrow> df, P x] = []" by (induction df) simp_all
  then show ?thesis by (simp add: media_def)
qed

text \<open>
  C10. In the branch of the windows of five days (\<open>15 < D \<le> 90\<close>) and in the branch of
  the months (\<open>90 < D < 365\<close>), a bucket between the earliest and the latest date of the
  records that holds no record is still a point of the output, and its value is NaN:
  the window number \<open>k\<close> that starts no later than the latest date, and the month
  number \<open>i\<close> from the month of the earliest date to the month of the latest one.
\<close>

theorem balde_vazio_e_emitido_com_NaN:
  assumes "df \<noteq> []"
  shows
  "(15 < data_fim - data_ini + 1 \<and> data_fim - data_ini + 1 \<le> 90 \<and>
    Min (Data ` set df) + 5 * int k \<le> Max (Data ` set df) \<and>
    (\<forall>r\<in>set df. \<not> (Min (Data ` set df) + 5 * int k \<le> Data r \<and>
                      Data r < Min (Data ` set df) + 5 * int k + 5)) \<longrightarrow>
      k < length (fst (preparar_df_plot df data_ini data_fim)) \<and>
      Chave (fst (preparar_df_plot df data_ini data_fim) ! k) =
        Dia (Min (Data ` set df) + 5 * int k) \<and>
      ITU_plot (fst (preparar_df_plot df data_ini data_fim) ! k) = NaN) \<and>
   (90 < data_fim - data_ini + 1 \<and> data_fim - data_ini + 1 < 365 \<and>
    indice_mes (Min (Data ` set df)) + int j \<le> indice_mes (Max (Data ` set df)) \<and>
    (\<forall>r\<in>set df. indice_mes (Data r) \<noteq> indice_mes (Min (Data ` set df)) + int j) \<longrightarrow>
      j < length (fst (preparar_df_plot df data_ini data_fim)) \<and>
      Chave (fst (preparar_df_plot df data_ini data_fim) ! j) =
        Dia (ymd2ord ((indice_mes (Min (Data ` set df)) + int j) div 12)
               ((indice_mes (Min (Data ` set df)) + int j) mod 12 + 1)
               (days_in_month ((indice_mes (Min (Data ` set df)) + int j) div 12)
                  ((indice_mes (Min (Data ` set df)) + int j) mod 12 + 1))) \<and>
      ITU_plot (fst (preparar_df_plot df data_ini data_fim) ! j) = NaN)"
proof (intro conjI impI)
  let ?P = "Min (Data ` set df)" and ?U = "Max (Data ` set df)"
  assume h: "15 < data_fim - data_ini + 1 \<and> data_fim - data_ini + 1 \<le> 90 \<and>
    ?P + 5 * int k \<le> ?U \<and>
    (\<forall>r\<in>set df. \<not> (?P + 5 * int k \<le> Data r \<and> Data r < ?P + 5 * int k + 5))"
  let ?n = "nat ((?U - ?P) div 5) + 1"
  have kn: "k < ?n" using h by linarith
  have pts: "fst (preparar_df_plot df data_ini data_fim) =
      map (\<lambda>(d, v). \<lparr>Chave = Dia d, ITU_plot = v, Label = Some (strftime_dm d)\<rparr>)
          (resample_5D_mean df)"
    using h by (simp add: preparar_df_plot_def)
  have len: "length (resample_5D_mean df) = ?n"
    by (simp add: resample_5D_mean_eq[OF assms])
  have nth: "resample_5D_mean df ! k =
      (?P + 5 * int k,
       media [ITU x. x \<leftarrow> df, ?P + 5 * int k \<le> Data x \<and> Data x < ?P + 5 * int k + 5])"
    using kn by (simp add: resample_5D_mean_eq[OF assms] del: upt_Suc)
  have nan: "media [ITU x. x \<leftarrow> df, ?P + 5 * int k \<le> Data x \<and> Data x < ?P + 5 * int k + 5] = NaN"
    using h by (intro media_vazia) blast
  show "k < length (fst (preparar_df_plot df data_ini data_fim))"
    using kn by (simp add: pts len)
  show "Chave (fst (preparar_df_plot df data_ini data_fim) ! k) = Dia (?P + 5 * int k)"
    using kn by (simp add: pts len nth)
  show "ITU_plot (fst (preparar_df_plot df data_ini data_fim) ! k) = NaN"
    using kn by (simp add: pts len nth nan)
next
  let ?P = "Min (Data ` set df)" and ?U = "Max (Data ` set df)"
  let ?i = "indice_mes ?P + int j"
  assume h: "90 < data_fim - data_ini + 1 \<and> data_fim - data_ini + 1 < 365 \<and>
    ?i \<le> indice_mes ?U \<and> (\<forall>r\<in>set df. indice_mes (Data r) \<noteq> ?i)"
  let ?n = "nat (indice_mes ?U - indice_mes ?P) + 1"
  have jn: "j < ?n" using h by linarith
  have pts: "fst (preparar_df_plot df data_ini data_fim) =
      map (\<lambda>(d, v). \<lparr>Chave = Dia d, ITU_plot = v, Label = Some (strftime_bY d)\<rparr>)
          (resample_M_mean df)"
    using h by (simp add: preparar_df_plot_def)
  have len: "length (resample_M_mean df) = ?n"
    by (simp add: resample_M_mean_eq[OF assms])
  have nth: "resample_M_mean df ! j =
      (ymd2ord (?i div 12) (?i mod 12 + 1) (days_in_month (?i div 12) (?i mod 12 + 1)),
       media [ITU x. x \<leftarrow> df, indice_mes (Data x) = ?i])"
    using jn by (simp add: resample_M_mean_eq[OF assms] del: upt_Suc)
  have nan: "media [ITU x. x \<leftarrow> df, indice_mes (Data x) = ?i] = NaN"
    using h by (intro media_vazia) blast
  show "j < length (fst (preparar_df_plot df data_ini data_fim))"
    using jn by (simp add: pts len)
  show "Chave (fst (preparar_df_plot df data_ini data_fim) ! j) =
        Dia (ymd2ord (?i div 12) (?i mod 12 + 1) (days_in_month (?i div 12) (?i mod 12 + 1)))"
    using jn by (simp add: pts len nth)
  show "ITU_plot (fst (preparar_df_plot df data_ini data_fim) ! j) = NaN"
    using jn by (simp add: pts len nth nan)
qed

lemma datas_2020:
  "indice_mes 737540 = 24243"
  "ymd2ord 2020 2 (days_in_month 2020 2) = 737484"
  by (simp_all add: calendario_defs)

theorem balde_vazio_e_emitido_com_NaN_witness:
  "Chave (fst (preparar_df_plot
       [\<lparr>Data = 737427, Ta = 20, UR = 50, ITU = 70, Classe = Normal\<rparr>,
        \<lparr>Data = 737431, Ta = 30, UR = 60, ITU = 80, Classe = Perigo\<rparr>,
        \<lparr>Data = 737440, Ta = 25, UR = 60, ITU = 75, Classe = Alerta\<rparr>] 737425 737444) ! 1)
     = Dia 737432 \<and>
   ITU_plot (fst (preparar_df_plot
       [\<lparr>Data = 737427, Ta = 20, UR = 50, ITU = 70, Classe = Normal\<rparr>,
        \<lparr>Data = 737431, Ta = 30, UR = 60, ITU = 80, Classe = Perigo\<rparr>,
        \<lparr>Data = 737440, Ta = 25, UR = 60, ITU = 75, Classe = Alerta\<rparr>] 737425 737444) ! 1)
     = NaN \<and>
   Chave (fst (preparar_df_plot
       [\<lparr>Data = 737427, Ta = 20, UR = 50, ITU = 70, Classe = Normal\<rparr>,
        \<lparr>Data = 737431, Ta = 30, UR = 60, ITU = 80, Classe = Perigo\<rparr>,
        \<lparr>Data = 737540, Ta = 25, UR = 60, ITU = 75, Classe = Alerta\<rparr>] 737425 737600) ! 1)
     = Dia 737484 \<and>
   ITU_plot (fst (preparar_df_plot
       [\<lparr>Data = 737427, Ta = 20, UR = 50, ITU = 70, Classe = Normal\<rparr>,
        \<lparr>Data = 737431, Ta = 30, UR = 60, ITU = 80, Classe = Perigo\<rparr>,
        \<lparr>Data = 737540, Ta = 25, UR = 60, ITU = 75, Classe = Alerta\<rparr>] 737425 737600) ! 1)
     = NaN"
proof -
  let ?a = "[\<lparr>Data = 737427, Ta = 20, UR = 50, ITU = 70, Classe = Normal\<rparr>,
             \<lparr>Data = 737431, Ta = 30, UR = 60, ITU = 80, Classe = Perigo\<rparr>,
             \<lparr>Data = 737440, Ta = 25, UR = 60, ITU = 75, Classe = Alerta\<rparr>]"
  let ?b = "[\<lparr>Data = 737427, Ta = 20, UR = 50, ITU = 70, Classe = Normal\<rparr>,
             \<lparr>Data = 737431, Ta = 30, UR = 60, ITU = 80, Classe = Perigo\<rparr>,
             \<lparr>Data = 737540, Ta = 25, UR = 60, ITU = 75, Classe = Alerta\<rparr>]"
  have na: "?a \<noteq> []" and nb: "?b \<noteq> []" by simp_all
  have ma: "Min (Data ` set ?a) = 737427" "Max (Data ` set ?a) = 737440" by simp_all
  have mb: "Min (Data ` set ?b) = 737427" "Max (Data ` set ?b) = 737540" by simp_all
  have ea: "\<forall>r\<in>set ?a. \<not> (737427 + 5 * int 1 \<le> Data r \<and> Data r < 737427 + 5 * int 1 + 5)"
    by simp
  have eb: "\<forall>r\<in>set ?b. indice_mes (Data r) \<noteq> 24240 + int 1"
    by (simp add: jan2020 datas_2020)
  have wa: "Chave (fst (preparar_df_plot ?a 737425 737444) ! 1) = Dia 737432 \<and>
            ITU_plot (fst (preparar_df_plot ?a 737425 737444) ! 1) = NaN"
    using balde_vazio_e_emitido_com_NaN[OF na,
        where data_fim = 737444 and data_ini = 737425 and k = 1 and j = 0] ea
    unfolding ma by simp
  have wb: "Chave (fst (preparar_df_plot ?b 737425 737600) ! 1) = Dia 737484 \<and>
            ITU_plot (fst (preparar_df_plot ?b 737425 737600) ! 1) = NaN"
    using balde_vazio_e_emitido_com_NaN[OF nb,
        where data_fim = 737600 and data_ini = 737425 and k = 0 and j = 1] eb
    unfolding mb jan2020 datas_2020 by (simp add: datas_2020)
  from wa wb show ?thesis by blast
qed

text \<open>
  C3, as the code has it. For \<open>15 < D \<le> 90\<close> and a series that is not empty, the points
  are the consecutive windows of five days laid from the earliest date of the records
  (not from \<open>data_ini\<close>, which the resampling never sees) up to the window that holds
  the latest date. The point number \<open>k\<close> carries the first day of its window and the
  arithmetic mean of the index values dated in the window (NaN for none); every record
  lies in exactly one window; and the first window starts at \<open>data_ini\<close> whenever the
  earliest record is dated \<open>data_ini\<close>.
\<close>

theorem janelas_de_cinco_dias:
  assumes "df \<noteq> []"
    and "15 < data_fim - data_ini + 1" and "data_fim - data_ini + 1 \<le> 90"
  shows
  "length (fst (preparar_df_plot df data_ini data_fim)) =
     nat ((Max (Data ` set df) - Min (Data ` set df)) div 5) + 1 \<and>
   (\<forall>k < length (fst (preparar_df_plot df data_ini data_fim)).
      Chave (fst (preparar_df_plot df data_ini data_fim) ! k) =
        Dia (Min (Data ` set df) + 5 * int k) \<and>
      ITU_plot (fst (preparar_df_plot df data_ini data_fim) ! k) =
        (if [ITU x. x \<leftarrow> df, Min (Data ` set df) + 5 * int k \<le> Data x \<and>
                             Data x < Min (Data ` set df) + 5 * int k + 5] = []
         then NaN
         else Num (sum_list [ITU x. x \<leftarrow> df, Min (Data ` set df) + 5 * int k \<le> Data x \<and>
                                      Data x < Min (Data ` set df) + 5 * int k + 5]
                   / real (length [ITU x. x \<leftarrow> df, Min (Data ` set df) + 5 * int k \<le> Data x \<and>
                                      Data x < Min (Data ` set df) + 5 * int k + 5])))) \<and>
   (\<forall>r \<in> set df. \<exists>!k. k < length (fst (preparar_df_plot df data_ini data_fim)) \<and>
      Min (Data ` set df) + 5 * int k \<le> Data r \<and>
      Data r < Min (Data ` set df) + 5 * int k + 5) \<and>
   (Min (Data ` set df) = data_ini \<longrightarrow>
      Chave (fst (preparar_df_plot df data_ini data_fim) ! 0) = Dia data_ini)"
proof -
  let ?P = "Min (Data ` set df)" and ?U = "Max (Data ` set df)"
  let ?n = "nat ((?U - ?P) div 5) + 1"
  let ?pts = "fst (preparar_df_plot df data_ini data_fim)"
  let ?w = "\<lambda>k. [ITU x. x \<leftarrow> df, ?P + 5 * int k \<le> Data x \<and> Data x < ?P + 5 * int k + 5]"
  have pts: "?pts =
      map (\<lambda>(d, v). \<lparr>Chave = Dia d, ITU_plot = v, Label = Some (strftime_dm d)\<rparr>)
          (resample_5D_mean df)"
    using assms(2,3) by (simp add: preparar_df_plot_def)
  have len: "length ?pts = ?n"
    by (simp add: pts resample_5D_mean_eq[OF assms(1)])
  have nth: "resample_5D_mean df ! k = (?P + 5 * int k, media (?w k))" if "k < ?n" for k
    using that by (simp add: resample_5D_mean_eq[OF assms(1)] del: upt_Suc)
  have point: "Chave (?pts ! k) = Dia (?P + 5 * int k) \<and>
      ITU_plot (?pts ! k) =
        (if ?w k = [] then NaN else Num (sum_list (?w k) / real (length (?w k))))"
    if "k < length ?pts" for k
  proof -
    have kn: "k < ?n" using that len by simp
    have kl: "k < length (resample_5D_mean df)" using that by (simp add: pts)
    have "?pts ! k = \<lparr>Chave = Dia (?P + 5 * int k), ITU_plot = media (?w k),
                       Label = Some (strftime_dm (?P + 5 * int k))\<rparr>"
      unfolding pts using kl nth[OF kn] by simp
    then show ?thesis by (simp add: media_def)
  qed
  have part: "\<exists>!k. k < length ?pts \<and> ?P + 5 * int k \<le> Data r \<and> Data r < ?P + 5 * int k + 5"
    if "r \<in> set df" for r
  proof -
    have fin: "finite (Data ` set df)" by simp
    have mem: "Data r \<in> Data ` set df" using that by simp
    have lo: "?P \<le> Data r" using Min_le[OF fin mem] .
    have hi: "Data r \<le> ?U" using Max_ge[OF fin mem] .
    let ?k = "nat ((Data r - ?P) div 5)"
    have k0: "0 \<le> (Data r - ?P) div 5" using lo by simp
    have kle: "(Data r - ?P) div 5 \<le> (?U - ?P) div 5"
      using hi by (intro zdiv_mono1) simp_all
    have a: "?k < length ?pts" unfolding len using k0 kle by linarith
    have b: "?P + 5 * int ?k \<le> Data r \<and> Data r < ?P + 5 * int ?k + 5"
      using k0 by (simp add: algebra_simps) presburger
    have u: "k = ?k" if "?P + 5 * int k \<le> Data r \<and> Data r < ?P + 5 * int k + 5" for k
    proof -
      have "(Data r - ?P) div 5 = int k" using that by presburger
      then show ?thesis by simp
    qed
    show ?thesis using a b u by blast
  qed
  have first: "?P = data_ini \<longrightarrow> Chave (?pts ! 0) = Dia data_ini"
  proof
    assume e: "?P = data_ini"
    have "0 < length ?pts" unfolding len by simp
    from point[OF this] show "Chave (?pts ! 0) = Dia data_ini" using e by simp
  qed
  from len point part first show ?thesis by blast
qed

lemma rotulos_jan2020:
  "strftime_dm 737427 = ''03/01''"
  by (simp add: rotulo_defs calendario_defs)

theorem janelas_de_cinco_dias_witness:
  "length (fst (preparar_df_plot
       [\<lparr>Data = 737427, Ta = 20, UR = 50, ITU = 70, Classe = Normal\<rparr>,
        \<lparr>Data = 737431, Ta = 30, UR = 60, ITU = 80, Classe = Perigo\<rparr>] 737427 737446)) = 1 \<and>
   Chave (fst (preparar_df_plot
       [\<lparr>Data = 737427, Ta = 20, UR = 50, ITU = 70, Classe = Normal\<rparr>,
        \<lparr>Data = 737431, Ta = 30, UR = 60, ITU = 80, Classe = Perigo\<rparr>] 737427 737446) ! 0)
     = Dia 737427 \<and>
   ITU_plot (fst (preparar_df_plot
       [\<lparr>Data = 737427, Ta = 20, UR = 50, ITU = 70, Classe = Normal\<rparr>,
        \<lparr>Data = 737431, Ta = 30, UR = 60, ITU = 80, Classe = Perigo\<rparr>] 737427 737446) ! 0)
     = Num 75"
proof -
  let ?df = "[\<lparr>Data = 737427, Ta = 20, UR = 50, ITU = 70, Classe = Normal\<rparr>,
              \<lparr>Data = 737431, Ta = 30, UR = 60, ITU = 80, Classe = Perigo\<rparr>]"
  let ?pts = "fst (preparar_df_plot ?df 737427 737446)"
  have ne: "?df \<noteq> []" by simp
  have d1: "(15::int) < 737446 - 737427 + 1" and d2: "(737446::int) - 737427 + 1 \<le> 90"
    by simp_all
  have mm: "Min (Data ` set ?df) = 737427" "Max (Data ` set ?df) = 737431" by simp_all
  note t = janelas_de_cinco_dias[OF ne d1 d2]
  have len: "length ?pts = 1" using t unfolding mm by simp
  from t have "\<forall>k < length ?pts.
      Chave (?pts ! k) = Dia (Min (Data ` set ?df) + 5 * int k) \<and>
      ITU_plot (?pts ! k) =
        (if [ITU x. x \<leftarrow> ?df, Min (Data ` set ?df) + 5 * int k \<le> Data x \<and>
                             Data x < Min (Data ` set ?df) + 5 * int k + 5] = []
         then NaN
         else Num (sum_list [ITU x. x \<leftarrow> ?df, Min (Data ` set ?df) + 5 * int k \<le> Data x \<and>
                                      Data x < Min (Data ` set ?df) + 5 * int k + 5]
                   / real (length [ITU x. x \<leftarrow> ?df, Min (Data ` set ?df) + 5 * int k \<le> Data x \<and>
                                      Data x < Min (Data ` set ?df) + 5 * int k + 5])))"
    by blast
  then have "Chave (?pts ! 0) = Dia (Min (Data ` set ?df) + 5 * int 0) \<and>
      ITU_plot (?pts ! 0) =
        (if [ITU x. x \<leftarrow> ?df, Min (Data ` set ?df) + 5 * int 0 \<le> Data x \<and>
                             Data x < Min (Data ` set ?df) + 5 * int 0 + 5] = []
         then NaN
         else Num (sum_list [ITU x. x \<leftarrow> ?df, Min (Data ` set ?df) + 5 * int 0 \<le> Data x \<and>
                                      Data x < Min (Data ` set ?df) + 5 * int 0 + 5]
                   / real (length [ITU x. x \<leftarrow> ?df, Min (Data ` set ?df) + 5 * int 0 \<le> Data x \<and>
                                      Data x < Min (Data ` set ?df) + 5 * int 0 + 5])))"
    using len by simp
  then have p0: "Chave (?pts ! 0) = Dia 737427 \<and> ITU_plot (?pts ! 0) = Num 75"
    unfolding mm by simp
  from len p0 show ?thesis by blast
qed

text \<open>
  C3 as the spec states it fails: with \<open>data_ini\<close> on 1 January 2020 (ordinal 737425),
  \<open>data_fim\<close> on 20 January (\<open>D = 20\<close>) and records on 3 and 7 January, the only window
  starts on 3 January and holds both records (mean 75), whereas windows laid from
  \<open>data_ini\<close> would hold the record of 3 January alone (70) and the record of 7 January
  alone (80).
\<close>

theorem janelas_ancoradas_no_inicio_contraexemplo:
  "fst (preparar_df_plot
       [\<lparr>Data = 737427, Ta = 20, UR = 50, ITU = 70, Classe = Normal\<rparr>,
        \<lparr>Data = 737431, Ta = 30, UR = 60, ITU = 80, Classe = Perigo\<rparr>] 737425 737444)
     = [\<lparr>Chave = Dia 737427, ITU_plot = Num 75, Label = Some ''03/01''\<rparr>] \<and>
   Chave (fst (preparar_df_plot
       [\<lparr>Data = 737427, Ta = 20, UR = 50, ITU = 70, Classe = Normal\<rparr>,
        \<lparr>Data = 737431, Ta = 30, UR = 60, ITU = 80, Classe = Perigo\<rparr>] 737425 737444) ! 0)
     \<noteq> Dia 737425 \<and>
   media [ITU x. x \<leftarrow>
       [\<lparr>Data = 737427, Ta = 20, UR = 50, ITU = 70, Classe = Normal\<rparr>,
        \<lparr>Data = 737431, Ta = 30, UR = 60, ITU = 80, Classe = Perigo\<rparr>],
       737425 \<le> Data x \<and> Data x < 737425 + 5] = Num 70 \<and>
   media [ITU x. x \<leftarrow>
       [\<lparr>Data = 737427, Ta = 20, UR = 50, ITU = 70, Classe = Normal\<rparr>,
        \<lparr>Data = 737431, Ta = 30, UR = 60, ITU = 80, Classe = Perigo\<rparr>],
       737425 + 5 \<le> Data x \<and> Data x < 737425 + 10] = Num 80"
proof -
  let ?df = "[\<lparr>Data = 737427, Ta = 20, UR = 50, ITU = 70, Classe = Normal\<rparr>,
              \<lparr>Data = 737431, Ta = 30, UR = 60, ITU = 80, Classe = Perigo\<rparr>]"
  have r5: "resample_5D_mean ?df = [(737427, Num 75)]"
    by (simp add: resample_5D_mean_def media_def Let_def)
  have pts: "fst (preparar_df_plot ?df 737425 737444)
     = [\<lparr>Chave = Dia 737427, ITU_plot = Num 75, Label = Some ''03/01''\<rparr>]"
    by (simp add: preparar_df_plot_def r5 rotulos_jan2020)
  have m1: "media [ITU x. x \<leftarrow> ?df, 737425 \<le> Data x \<and> Data x < 737425 + 5] = Num 70"
    by (simp add: media_def)
  have m2: "media [ITU x. x \<leftarrow> ?df, 737425 + 5 \<le> Data x \<and> Data x < 737425 + 10] = Num 80"
    by (simp add: media_def)
  have c: "Chave (fst (preparar_df_plot ?df 737425 737444) ! 0) \<noteq> Dia 737425"
    unfolding pts by simp
  from pts c m1 m2 show ?thesis by blast
qed

subsection \<open>The climatology\<close>

lemma month_step_range:
  fixes n :: int and b :: bool
  assumes n: "0 \<le> n" "n < 365"
  defines "m \<equiv> (n + 50) div 32"
  defines "pre \<equiv> DAYS_BEFORE_MONTH m + (if m > 2 \<and> b then 1 else 0)"
  shows "1 \<le> (if pre > n then m - 1 else m) \<and> (if pre > n then m - 1 else m) \<le> 12"
proof -
  have m: "1 \<le> m" "m \<le> 12" using n unfolding m_def by presburger+
  have "m = 1 \<Longrightarrow> pre = 0" by (simp add: pre_def DAYS_BEFORE_MONTH_def)
  then have "pre > n \<Longrightarrow> 2 \<le> m" using n m by fastforce
  then show ?thesis using m by auto
qed

text \<open>The month of a date is one of 1 to 12.\<close>

lemma mes_de_range: "1 \<le> mes_de d \<and> mes_de d \<le> 12"
proof -
  define n where "n = (d - 1) mod 146097 mod 36524 mod 1461 mod 365"
  have n: "0 \<le> n" "n < 365" by (simp_all add: n_def)
  define b where "b = ((d - 1) mod 146097 mod 36524 mod 1461 div 365 = 3 \<and>
     ((d - 1) mod 146097 mod 36524 div 1461 \<noteq> 24 \<or> (d - 1) mod 146097 div 36524 = 3))"
  note st = month_step_range[OF n, of b]
  show ?thesis
  proof (cases "(d - 1) mod 146097 mod 36524 mod 1461 div 365 = 4 \<or>
                (d - 1) mod 146097 div 36524 = 4")
    case True
    then show ?thesis by (simp add: mes_de_def ord2ymd_def Let_def)
  next
    case False
    have "mes_de d =
        (if DAYS_BEFORE_MONTH ((n + 50) div 32) + (if (n + 50) div 32 > 2 \<and> b then 1 else 0) > n
         then (n + 50) div 32 - 1 else (n + 50) div 32)"
      using False unfolding mes_de_def ord2ymd_def Let_def n_def b_def
      by (simp only: if_False fst_conv snd_conv if_distrib[of fst] if_distrib[of snd]
            if_distrib[of "\<lambda>x. fst (snd x)"])
    then show ?thesis using st by simp
  qed
qed

lemma groupby_Mes_mean_eq:
  "groupby_Mes_mean df =
     map (\<lambda>m. (m, media [ITU x. x \<leftarrow> df, mes_de (Data x) = m]))
         (sorted_list_of_set ((\<lambda>r. mes_de (Data r)) ` set df))"
proof -
  have "sort (remdups (map (\<lambda>x. mes_de (Data x)) df)) =
        sorted_list_of_set (set (map (\<lambda>x. mes_de (Data x)) df))"
    by (simp only: sorted_list_of_set_sort_remdups)
  then show ?thesis by (simp add: groupby_Mes_mean_def)
qed

lemma grupo_nao_vazio:
  "r \<in> set df \<Longrightarrow> [ITU x. x \<leftarrow> df, mes_de (Data x) = mes_de (Data r)] \<noteq> []"
  by (induction df) auto

text \<open>
  C2, as the code has it. For \<open>D \<ge> 365\<close> the points are the month numbers that occur
  among the dates of the records, each once and in ascending order, whatever the year;
  the value of a point is the arithmetic mean of the index values of all the records of
  that month number; a month without records has no point. So there are at most 12
  points, and exactly 12 when, and only when, every month number from 1 to 12 occurs.
\<close>

theorem climatologia_mensal:
  assumes "365 \<le> data_fim - data_ini + 1"
  shows
  "snd (preparar_df_plot df data_ini data_fim) =
     ''ITU Medio Mensal (media de todos os anos)'' \<and>
   map Chave (fst (preparar_df_plot df data_ini data_fim)) =
     map Mes (sorted_list_of_set ((\<lambda>r. mes_de (Data r)) ` set df)) \<and>
   (\<forall>p \<in> set (fst (preparar_df_plot df data_ini data_fim)).
      \<exists>m. Chave p = Mes m \<and> 1 \<le> m \<and> m \<le> 12 \<and>
          [ITU x. x \<leftarrow> df, mes_de (Data x) = m] \<noteq> [] \<and>
          ITU_plot p =
            Num (sum_list [ITU x. x \<leftarrow> df, mes_de (Data x) = m]
                 / real (length [ITU x. x \<leftarrow> df, mes_de (Data x) = m])) \<and>
          Label p = mapa_mes m) \<and>
   length (fst (preparar_df_plot df data_ini data_fim)) =
     card ((\<lambda>r. mes_de (Data r)) ` set df) \<and>
   length (fst (preparar_df_plot df data_ini data_fim)) \<le> 12 \<and>
   (length (fst (preparar_df_plot df data_ini data_fim)) = 12 \<longleftrightarrow>
      (\<lambda>r. mes_de (Data r)) ` set df = {1..12})"
proof -
  let ?ms = "(\<lambda>r. mes_de (Data r)) ` set df"
  let ?g = "\<lambda>m. [ITU x. x \<leftarrow> df, mes_de (Data x) = m]"
  let ?pt = "\<lambda>m. \<lparr>Chave = Mes m, ITU_plot = media (?g m), Label = mapa_mes m\<rparr>"
  let ?pts = "fst (preparar_df_plot df data_ini data_fim)"
  have fin: "finite ?ms" by simp
  have r: "preparar_df_plot df data_ini data_fim =
      (map (\<lambda>(m, v). \<lparr>Chave = Mes m, ITU_plot = v, Label = mapa_mes m\<rparr>)
           (groupby_Mes_mean df),
       ''ITU Medio Mensal (media de todos os anos)'')"
    using assms by (simp add: preparar_df_plot_def)
  have pts: "?pts = map ?pt (sorted_list_of_set ?ms)"
    by (simp add: r groupby_Mes_mean_eq o_def)
  have t: "snd (preparar_df_plot df data_ini data_fim) =
      ''ITU Medio Mensal (media de todos os anos)''"
    by (simp add: r)
  have keys: "map Chave ?pts = map Mes (sorted_list_of_set ?ms)"
    by (simp add: pts o_def)
  have vals: "\<exists>m. Chave p = Mes m \<and> 1 \<le> m \<and> m \<le> 12 \<and> ?g m \<noteq> [] \<and>
      ITU_plot p = Num (sum_list (?g m) / real (length (?g m))) \<and> Label p = mapa_mes m"
    if "p \<in> set ?pts" for p
  proof -
    from that obtain m where m: "m \<in> ?ms" "p = ?pt m"
      unfolding pts using fin by auto
    from m(1) obtain x where x: "x \<in> set df" "m = mes_de (Data x)" by blast
    have ne: "?g m \<noteq> []" unfolding x(2) by (rule grupo_nao_vazio[OF x(1)])
    have rg: "1 \<le> m \<and> m \<le> 12" unfolding x(2) by (rule mes_de_range)
    have v: "ITU_plot p = Num (sum_list (?g m) / real (length (?g m)))"
      using ne by (simp add: m(2) media_def)
    show ?thesis using m(2) ne rg v by simp
  qed
  have len: "length ?pts = card ?ms" by (simp add: pts)
  have sub: "?ms \<subseteq> {1..12}" using mes_de_range by auto
  have c12: "card {1..12::int} = 12" by simp
  have le: "length ?pts \<le> 12"
    unfolding len using card_mono[OF _ sub] c12 by simp
  have eq: "length ?pts = 12 \<longleftrightarrow> ?ms = {1..12}"
  proof
    assume "length ?pts = 12"
    then have "card ?ms = card {1..12::int}" using len c12 by simp
    then show "?ms = {1..12}" using card_subset_eq[OF _ sub] by simp
  next
    assume "?ms = {1..12}"
    then show "length ?pts = 12" using len c12 by simp
  qed
  from t keys vals len le eq show ?thesis by blast
qed

lemma meses_2020_2021:
  "mes_de 737540 = 4" "mes_de 737793 = 1"
  by (simp_all add: calendario_defs)

theorem climatologia_mensal_witness:
  "map Chave (fst (preparar_df_plot
       [\<lparr>Data = 737427, Ta = 20, UR = 50, ITU = 70, Classe = Normal\<rparr>,
        \<lparr>Data = 737431, Ta = 30, UR = 60, ITU = 80, Classe = Perigo\<rparr>,
        \<lparr>Data = 737540, Ta = 25, UR = 60, ITU = 75, Classe = Alerta\<rparr>,
        \<lparr>Data = 737793, Ta = 35, UR = 70, ITU = 90, Classe = Emergencia\<rparr>] 737425 737824))
     = [Mes 1, Mes 4] \<and>
   length (fst (preparar_df_plot
       [\<lparr>Data = 737427, Ta = 20, UR = 50, ITU = 70, Classe = Normal\<rparr>,
        \<lparr>Data = 737431, Ta = 30, UR = 60, ITU = 80, Classe = Perigo\<rparr>,
        \<lparr>Data = 737540, Ta = 25, UR = 60, ITU = 75, Classe = Alerta\<rparr>,
        \<lparr>Data = 737793, Ta = 35, UR = 70, ITU = 90, Classe = Emergencia\<rparr>] 737425 737824))
     = 2"
proof -
  let ?df = "[\<lparr>Data = 737427, Ta = 20, UR = 50, ITU = 70, Classe = Normal\<rparr>,
              \<lparr>Data = 737431, Ta = 30, UR = 60, ITU = 80, Classe = Perigo\<rparr>,
              \<lparr>Data = 737540, Ta = 25, UR = 60, ITU = 75, Classe = Alerta\<rparr>,
              \<lparr>Data = 737793, Ta = 35, UR = 70, ITU = 90, Classe = Emergencia\<rparr>]"
  have d: "(365::int) \<le> 737824 - 737425 + 1" by simp
  have ms: "(\<lambda>r. mes_de (Data r)) ` set ?df = set [1, 4]"
    by (auto simp add: jan2020 meses_2020_2021)
  have sl: "sorted_list_of_set (set [1, 4 :: int]) = [1, 4]"
    by (simp only: sorted_list_of_set_sort_remdups) simp
  note t = climatologia_mensal[OF d, of ?df]
  have k: "map Chave (fst (preparar_df_plot ?df 737425 737824)) = [Mes 1, Mes 4]"
    using t unfolding ms sl by simp
  then have "length (map Chave (fst (preparar_df_plot ?df 737425 737824))) = 2"
    by simp
  then have l: "length (fst (preparar_df_plot ?df 737425 737824)) = 2"
    by (simp only: length_map)
  from k l show ?thesis by blast
qed

text \<open>
  C2 as the spec states it fails: for a period of 400 days (1 January 2020 to
  3 February 2021) whose series holds two records, both of January 2020, the output
  has one point, not twelve.
\<close>

theorem doze_pontos_contraexemplo:
  "(365::int) \<le> 737824 - 737425 + 1 \<and>
   fst (preparar_df_plot
       [\<lparr>Data = 737427, Ta = 20, UR = 50, ITU = 70, Classe = Normal\<rparr>,
        \<lparr>Data = 737431, Ta = 30, UR = 60, ITU = 80, Classe = Perigo\<rparr>] 737425 737824)
     = [\<lparr>Chave = Mes 1, ITU_plot = Num 75, Label = Some ''Jan''\<rparr>] \<and>
   length (fst (preparar_df_plot
       [\<lparr>Data = 737427, Ta = 20, UR = 50, ITU = 70, Classe = Normal\<rparr>,
        \<lparr>Data = 737431, Ta = 30, UR = 60, ITU = 80, Classe = Perigo\<rparr>] 737425 737824))
     \<noteq> 12"
proof -
  let ?df = "[\<lparr>Data = 737427, Ta = 20, UR = 50, ITU = 70, Classe = Normal\<rparr>,
              \<lparr>Data = 737431, Ta = 30, UR = 60, ITU = 80, Classe = Perigo\<rparr>]"
  have gM: "groupby_Mes_mean ?df = [(1, Num 75)]"
    by (simp add: groupby_Mes_mean_def media_def jan2020)
  have pts: "fst (preparar_df_plot ?df 737425 737824)
     = [\<lparr>Chave = Mes 1, ITU_plot = Num 75, Label = Some ''Jan''\<rparr>]"
    by (simp add: preparar_df_plot_def gM mapa_mes_def)
  have l: "length (fst (preparar_df_plot ?df 737425 737824)) \<noteq> 12"
    unfolding pts by simp
  from pts l show ?thesis by simp
qed

subsection \<open>The choice of the granularity\<close>

text \<open>The number of a month is the same as its pair of year and month.\<close>

lemma ano_mes_div_mod:
  fixes a m i :: int
  assumes "1 \<le> m" "m \<le> 12"
  shows "a * 12 + (m - 1) = i \<longleftrightarrow> a = i div 12 \<and> m = i mod 12 + 1"
proof
  assume "a * 12 + (m - 1) = i"
  then have i: "i = (m - 1) + 12 * a" by simp
  have d: "i div 12 = a" unfolding i using assms by simp
  have r: "i mod 12 = m - 1" unfolding i using assms by simp
  from d r show "a = i div 12 \<and> m = i mod 12 + 1" by simp
next
  assume h: "a = i div 12 \<and> m = i mod 12 + 1"
  have "i div 12 * 12 + i mod 12 = i" by (rule div_mult_mod_eq)
  then show "a * 12 + (m - 1) = i" using h by simp
qed

lemma indice_mes_iff:
  "indice_mes d = i \<longleftrightarrow> ano_de d = i div 12 \<and> mes_de d = i mod 12 + 1"
  unfolding indice_mes_def
  using ano_mes_div_mod[of "mes_de d" "ano_de d" i] mes_de_range[of d] by blast

text \<open>
  C4. The granularity depends on the number of days \<open>D = (data_fim - data_ini) + 1\<close>
  alone, the branches tried in order.
  \<^item> \<open>D \<le> 15\<close>: one point per record (per day), with the date and the index of the
    record.
  \<^item> \<open>15 < D \<le> 90\<close>: one point per window of five days, from the earliest date of the
    records; the point carries the first day of the window and the mean of the index
    values dated in the window.
  \<^item> \<open>90 < D < 365\<close>: one point per pair of year and month, from the month of the
    earliest date to the month of the latest; the point carries the last day of that
    month and the mean of the index values of the records of that year and month.
  \<^item> \<open>D \<ge> 365\<close>: one point per month number that occurs, in ascending order; the point
    carries the month number and the mean of the index values of the records of that
    month number, whatever their year.
  A mean over no record is NaN. At the boundaries, \<open>D = 15\<close> is daily, \<open>D = 90\<close> is by
  five days and \<open>D = 365\<close> is the climatology.
\<close>

theorem granularidade_pelo_numero_de_dias:
  "(data_fim - data_ini + 1 \<le> 15 \<longrightarrow>
      snd (preparar_df_plot df data_ini data_fim) = ''ITU Diario'' \<and>
      map (\<lambda>p. (Chave p, ITU_plot p)) (fst (preparar_df_plot df data_ini data_fim)) =
        map (\<lambda>r. (Dia (Data r), Num (ITU r))) df) \<and>
   (15 < data_fim - data_ini + 1 \<and> data_fim - data_ini + 1 \<le> 90 \<and> df \<noteq> [] \<longrightarrow>
      snd (preparar_df_plot df data_ini data_fim) = ''ITU (Media a cada 5 dias)'' \<and>
      map (\<lambda>p. (Chave p, ITU_plot p)) (fst (preparar_df_plot df data_ini data_fim)) =
        map (\<lambda>k. let ini = Min (Data ` set df) + 5 * int k;
                     w = [ITU x. x \<leftarrow> df, ini \<le> Data x \<and> Data x < ini + 5]
                 in (Dia ini, if w = [] then NaN else Num (sum_list w / real (length w))))
            [0..<nat ((Max (Data ` set df) - Min (Data ` set df)) div 5) + 1]) \<and>
   (90 < data_fim - data_ini + 1 \<and> data_fim - data_ini + 1 < 365 \<and> df \<noteq> [] \<longrightarrow>
      snd (preparar_df_plot df data_ini data_fim) = ''ITU Medio Mensal'' \<and>
      map (\<lambda>p. (Chave p, ITU_plot p)) (fst (preparar_df_plot df data_ini data_fim)) =
        map (\<lambda>j. let i = ano_de (Min (Data ` set df)) * 12
                         + (mes_de (Min (Data ` set df)) - 1) + int j;
                     y = i div 12;
                     m = i mod 12 + 1;
                     w = [ITU x. x \<leftarrow> df, ano_de (Data x) = y \<and> mes_de (Data x) = m]
                 in (Dia (ymd2ord y m (days_in_month y m)),
                     if w = [] then NaN else Num (sum_list w / real (length w))))
            [0..<nat (ano_de (Max (Data ` set df)) * 12 + (mes_de (Max (Data ` set df)) - 1)
                      - (ano_de (Min (Data ` set df)) * 12
                         + (mes_de (Min (Data ` set df)) - 1))) + 1]) \<and>
   (365 \<le> data_fim - data_ini + 1 \<longrightarrow>
      snd (preparar_df_plot df data_ini data_fim) =
        ''ITU Medio Mensal (media de todos os anos)'' \<and>
      map (\<lambda>p. (Chave p, ITU_plot p)) (fst (preparar_df_plot df data_ini data_fim)) =
        map (\<lambda>m. let w = [ITU x. x \<leftarrow> df, mes_de (Data x) = m]
                 in (Mes m, if w = [] then NaN else Num (sum_list w / real (length w))))
            (sorted_list_of_set ((\<lambda>r. mes_de (Data r)) ` set df))) \<and>
   (fim' - ini' = data_fim - data_ini \<longrightarrow>
      preparar_df_plot df ini' fim' = preparar_df_plot df data_ini data_fim) \<and>
   snd (preparar_df_plot df d (d + 14)) = ''ITU Diario'' \<and>
   snd (preparar_df_plot df d (d + 15)) = ''ITU (Media a cada 5 dias)'' \<and>
   snd (preparar_df_plot df d (d + 89)) = ''ITU (Media a cada 5 dias)'' \<and>
   snd (preparar_df_plot df d (d + 90)) = ''ITU Medio Mensal'' \<and>
   snd (preparar_df_plot df d (d + 363)) = ''ITU Medio Mensal'' \<and>
   snd (preparar_df_plot df d (d + 364)) = ''ITU Medio Mensal (media de todos os anos)''"
proof -
  let ?P = "Min (Data ` set df)" and ?U = "Max (Data ` set df)"
  have b1: "data_fim - data_ini + 1 \<le> 15 \<longrightarrow>
      snd (preparar_df_plot df data_ini data_fim) = ''ITU Diario'' \<and>
      map (\<lambda>p. (Chave p, ITU_plot p)) (fst (preparar_df_plot df data_ini data_fim)) =
        map (\<lambda>r. (Dia (Data r), Num (ITU r))) df"
    by (simp add: preparar_df_plot_def o_def)
  have b2: "15 < data_fim - data_ini + 1 \<and> data_fim - data_ini + 1 \<le> 90 \<and> df \<noteq> [] \<longrightarrow>
      snd (preparar_df_plot df data_ini data_fim) = ''ITU (Media a cada 5 dias)'' \<and>
      map (\<lambda>p. (Chave p, ITU_plot p)) (fst (preparar_df_plot df data_ini data_fim)) =
        map (\<lambda>k. let ini = ?P + 5 * int k;
                     w = [ITU x. x \<leftarrow> df, ini \<le> Data x \<and> Data x < ini + 5]
                 in (Dia ini, if w = [] then NaN else Num (sum_list w / real (length w))))
            [0..<nat ((?U - ?P) div 5) + 1]"
  proof
    assume h: "15 < data_fim - data_ini + 1 \<and> data_fim - data_ini + 1 \<le> 90 \<and> df \<noteq> []"
    then have ne: "df \<noteq> []" by simp
    have r: "preparar_df_plot df data_ini data_fim =
        (map (\<lambda>(d, v). \<lparr>Chave = Dia d, ITU_plot = v, Label = Some (strftime_dm d)\<rparr>)
             (resample_5D_mean df),
         ''ITU (Media a cada 5 dias)'')"
      using h by (simp add: preparar_df_plot_def)
    show "snd (preparar_df_plot df data_ini data_fim) = ''ITU (Media a cada 5 dias)'' \<and>
      map (\<lambda>p. (Chave p, ITU_plot p)) (fst (preparar_df_plot df data_ini data_fim)) =
        map (\<lambda>k. let ini = ?P + 5 * int k;
                     w = [ITU x. x \<leftarrow> df, ini \<le> Data x \<and> Data x < ini + 5]
                 in (Dia ini, if w = [] then NaN else Num (sum_list w / real (length w))))
            [0..<nat ((?U - ?P) div 5) + 1]"
      unfolding r resample_5D_mean_eq[OF ne]
      by (simp add: o_def media_def Let_def del: upt_Suc)
  qed
  have b3: "90 < data_fim - data_ini + 1 \<and> data_fim - data_ini + 1 < 365 \<and> df \<noteq> [] \<longrightarrow>
      snd (preparar_df_plot df data_ini data_fim) = ''ITU Medio Mensal'' \<and>
      map (\<lambda>p. (Chave p, ITU_plot p)) (fst (preparar_df_plot df data_ini data_fim)) =
        map (\<lambda>j. let i = ano_de ?P * 12 + (mes_de ?P - 1) + int j;
                     y = i div 12;
                     m = i mod 12 + 1;
                     w = [ITU x. x \<leftarrow> df, ano_de (Data x) = y \<and> mes_de (Data x) = m]
                 in (Dia (ymd2ord y m (days_in_month y m)),
                     if w = [] then NaN else Num (sum_list w / real (length w))))
            [0..<nat (ano_de ?U * 12 + (mes_de ?U - 1)
                      - (ano_de ?P * 12 + (mes_de ?P - 1))) + 1]"
  proof
    assume h: "90 < data_fim - data_ini + 1 \<and> data_fim - data_ini + 1 < 365 \<and> df \<noteq> []"
    then have ne: "df \<noteq> []" by simp
    have r: "preparar_df_plot df data_ini data_fim =
        (map (\<lambda>(d, v). \<lparr>Chave = Dia d, ITU_plot = v, Label = Some (strftime_bY d)\<rparr>)
             (resample_M_mean df),
         ''ITU Medio Mensal'')"
      using h by (simp add: preparar_df_plot_def)
    have im: "indice_mes x = ano_de x * 12 + (mes_de x - 1)" for x
      by (simp add: indice_mes_def)
    show "snd (preparar_df_plot df data_ini data_fim) = ''ITU Medio Mensal'' \<and>
      map (\<lambda>p. (Chave p, ITU_plot p)) (fst (preparar_df_plot df data_ini data_fim)) =
        map (\<lambda>j. let i = ano_de ?P * 12 + (mes_de ?P - 1) + int j;
                     y = i div 12;
                     m = i mod 12 + 1;
                     w = [ITU x. x \<leftarrow> df, ano_de (Data x) = y \<and> mes_de (Data x) = m]
                 in (Dia (ymd2ord y m (days_in_month y m)),
                     if w = [] then NaN else Num (sum_list w / real (length w))))
            [0..<nat (ano_de ?U * 12 + (mes_de ?U - 1)
                      - (ano_de ?P * 12 + (mes_de ?P - 1))) + 1]"
      unfolding r resample_M_mean_eq[OF ne] indice_mes_iff
      unfolding im
      by (simp add: o_def media_def Let_def del: upt_Suc)
  qed
  have b4: "365 \<le> data_fim - data_ini + 1 \<longrightarrow>
      snd (preparar_df_plot df data_ini data_fim) =
        ''ITU Medio Mensal (media de todos os anos)'' \<and>
      map (\<lambda>p. (Chave p, ITU_plot p)) (fst (preparar_df_plot df data_ini data_fim)) =
        map (\<lambda>m. let w = [ITU x. x \<leftarrow> df, mes_de (Data x) = m]
                 in (Mes m, if w = [] then NaN else Num (sum_list w / real (length w))))
            (sorted_list_of_set ((\<lambda>r. mes_de (Data r)) ` set df))"
    by (simp add: preparar_df_plot_def groupby_Mes_mean_eq o_def media_def Let_def)
  have b5: "fim' - ini' = data_fim - data_ini \<longrightarrow>
      preparar_df_plot df ini' fim' = preparar_df_plot df data_ini data_fim"
    by (simp add: preparar_df_plot_def)
  have b6: "snd (preparar_df_plot df d (d + 14)) = ''ITU Diario''"
    "snd (preparar_df_plot df d (d + 15)) = ''ITU (Media a cada 5 dias)''"
    "snd (preparar_df_plot df d (d + 89)) = ''ITU (Media a cada 5 dias)''"
    "snd (preparar_df_plot df d (d + 90)) = ''ITU Medio Mensal''"
    "snd (preparar_df_plot df d (d + 363)) = ''ITU Medio Mensal''"
    "snd (preparar_df_plot df d (d + 364)) = ''ITU Medio Mensal (media de todos os anos)''"
    by (simp_all add: preparar_df_plot_def)
  show ?thesis
    by (intro conjI; fact b1 b2 b3 b4 b5 b6)
qed

lemma datas_nov2020_jan2021:
  "ano_de 737739 = 2020" "mes_de 737739 = 11"
  "ano_de 737749 = 2020" "mes_de 737749 = 11"
  "ano_de 737805 = 2021" "mes_de 737805 = 1"
  "ymd2ord 2020 11 (days_in_month 2020 11) = 737759"
  "ymd2ord 2020 12 (days_in_month 2020 12) = 737790"
  "ymd2ord 2021 1 (days_in_month 2021 1) = 737821"
  by (simp_all add: calendario_defs)

theorem granularidade_pelo_numero_de_dias_witness:
  "map (\<lambda>p. (Chave p, ITU_plot p))
     (fst (preparar_df_plot
        [\<lparr>Data = 737427, Ta = 20, UR = 50, ITU = 70, Classe = Normal\<rparr>,
         \<lparr>Data = 737431, Ta = 30, UR = 60, ITU = 80, Classe = Perigo\<rparr>] 737425 737439))
     = [(Dia 737427, Num 70), (Dia 737431, Num 80)] \<and>
   map (\<lambda>p. (Chave p, ITU_plot p))
     (fst (preparar_df_plot
        [\<lparr>Data = 737427, Ta = 20, UR = 50, ITU = 70, Classe = Normal\<rparr>,
         \<lparr>Data = 737431, Ta = 30, UR = 60, ITU = 80, Classe = Perigo\<rparr>,
         \<lparr>Data = 737440, Ta = 25, UR = 60, ITU = 75, Classe = Alerta\<rparr>] 737425 737444))
     = [(Dia 737427, Num 75), (Dia 737432, NaN), (Dia 737437, Num 75)] \<and>
   map (\<lambda>p. (Chave p, ITU_plot p))
     (fst (preparar_df_plot
        [\<lparr>Data = 737739, Ta = 20, UR = 50, ITU = 70, Classe = Normal\<rparr>,
         \<lparr>Data = 737749, Ta = 30, UR = 60, ITU = 80, Classe = Perigo\<rparr>,
         \<lparr>Data = 737805, Ta = 35, UR = 70, ITU = 90, Classe = Emergencia\<rparr>] 737730 737849))
     = [(Dia 737759, Num 75), (Dia 737790, NaN), (Dia 737821, Num 90)] \<and>
   map (\<lambda>p. (Chave p, ITU_plot p))
     (fst (preparar_df_plot
        [\<lparr>Data = 737427, Ta = 20, UR = 50, ITU = 70, Classe = Normal\<rparr>,
         \<lparr>Data = 737431, Ta = 30, UR = 60, ITU = 80, Classe = Perigo\<rparr>,
         \<lparr>Data = 737540, Ta = 25, UR = 60, ITU = 75, Classe = Alerta\<rparr>,
         \<lparr>Data = 737793, Ta = 15, UR = 40, ITU = 60, Classe = Normal\<rparr>] 737425 737824))
     = [(Mes 1, Num 70), (Mes 4, Num 75)] \<and>
   preparar_df_plot
        [\<lparr>Data = 737427, Ta = 20, UR = 50, ITU = 70, Classe = Normal\<rparr>,
         \<lparr>Data = 737431, Ta = 30, UR = 60, ITU = 80, Classe = Perigo\<rparr>] 0 14
     = preparar_df_plot
        [\<lparr>Data = 737427, Ta = 20, UR = 50, ITU = 70, Classe = Normal\<rparr>,
         \<lparr>Data = 737431, Ta = 30, UR = 60, ITU = 80, Classe = Perigo\<rparr>] 737425 737439"
proof -
  let ?d = "[\<lparr>Data = 737427, Ta = 20, UR = 50, ITU = 70, Classe = Normal\<rparr>,
             \<lparr>Data = 737431, Ta = 30, UR = 60, ITU = 80, Classe = Perigo\<rparr>]"
  let ?w = "[\<lparr>Data = 737427, Ta = 20, UR = 50, ITU = 70, Classe = Normal\<rparr>,
             \<lparr>Data = 737431, Ta = 30, UR = 60, ITU = 80, Classe = Perigo\<rparr>,
             \<lparr>Data = 737440, Ta = 25, UR = 60, ITU = 75, Classe = Alerta\<rparr>]"
  let ?m = "[\<lparr>Data = 737739, Ta = 20, UR = 50, ITU = 70, Classe = Normal\<rparr>,
             \<lparr>Data = 737749, Ta = 30, UR = 60, ITU = 80, Classe = Perigo\<rparr>,
             \<lparr>Data = 737805, Ta = 35, UR = 70, ITU = 90, Classe = Emergencia\<rparr>]"
  let ?c = "[\<lparr>Data = 737427, Ta = 20, UR = 50, ITU = 70, Classe = Normal\<rparr>,
             \<lparr>Data = 737431, Ta = 30, UR = 60, ITU = 80, Classe = Perigo\<rparr>,
             \<lparr>Data = 737540, Ta = 25, UR = 60, ITU = 75, Classe = Alerta\<rparr>,
             \<lparr>Data = 737793, Ta = 15, UR = 40, ITU = 60, Classe = Normal\<rparr>]"
  have w1: "map (\<lambda>p. (Chave p, ITU_plot p)) (fst (preparar_df_plot ?d 737425 737439))
      = [(Dia 737427, Num 70), (Dia 737431, Num 80)]"
    using granularidade_pelo_numero_de_dias[of 737439 737425 ?d 0 0 0] by simp
  have mw: "Min (Data ` set ?w) = 737427" "Max (Data ` set ?w) = 737440" by simp_all
  have n5: "[0..<nat ((737440 - 737427) div 5) + 1] = [0, 1, 2]"
    by (simp add: upt_rec)
  have w2: "map (\<lambda>p. (Chave p, ITU_plot p)) (fst (preparar_df_plot ?w 737425 737444))
      = [(Dia 737427, Num 75), (Dia 737432, NaN), (Dia 737437, Num 75)]"
    using granularidade_pelo_numero_de_dias[of 737444 737425 ?w 0 0 0]
    unfolding mw n5 by (simp add: Let_def)
  have mm: "Min (Data ` set ?m) = 737739" "Max (Data ` set ?m) = 737805" by simp_all
  have nM: "[0..<nat (2021 * 12 + (1 - 1) - (2020 * 12 + (11 - 1))) + 1] = [0, 1, 2]"
    by (simp add: upt_rec)
  have w3: "map (\<lambda>p. (Chave p, ITU_plot p)) (fst (preparar_df_plot ?m 737730 737849))
      = [(Dia 737759, Num 75), (Dia 737790, NaN), (Dia 737821, Num 90)]"
    using granularidade_pelo_numero_de_dias[of 737849 737730 ?m 0 0 0]
    unfolding mm datas_nov2020_jan2021 nM
    by (simp add: Let_def datas_nov2020_jan2021)
  have ms: "(\<lambda>r. mes_de (Data r)) ` set ?c = set [1, 4]"
    by (auto simp add: jan2020 meses_2020_2021)
  have sl: "sorted_list_of_set (set [1, 4 :: int]) = [1, 4]"
    by (simp only: sorted_list_of_set_sort_remdups) simp
  have w4: "map (\<lambda>p. (Chave p, ITU_plot p)) (fst (preparar_df_plot ?c 737425 737824))
      = [(Mes 1, Num 70), (Mes 4, Num 75)]"
    using granularidade_pelo_numero_de_dias[of 737824 737425 ?c 0 0 0]
    unfolding ms sl by (simp add: Let_def jan2020 meses_2020_2021)
  have w5: "preparar_df_plot ?d 0 14 = preparar_df_plot ?d 737425 737439"
    using granularidade_pelo_numero_de_dias[of 737439 737425 ?d 14 0 0] by simp
  show ?thesis
    by (intro conjI; fact w1 w2 w3 w4 w5)
qed

end
